theory Spec2Isabelle
  imports Main
begin

section \<open>Values and exceptions of the Python program\<close>

text \<open>
  The program of \<^verbatim>\<open>Conversational_proposal.py\<close> works on the values that
  \<^verbatim>\<open>json.loads\<close> returns: \<^verbatim>\<open>None\<close>, booleans, integers, floats, strings,
  lists and dictionaries with string keys. A dictionary is an association list in
  insertion order. A string is a list of characters with code points below 256.
  A float is kept as the text of its literal: the program never computes with numbers.
\<close>

datatype json =
    JNull
  | JBool bool
  | JInt int
  | JFloat string
  | JStr string
  | JArr "json list"
  | JObj "(string \<times> json) list"

type_synonym dict = "(string \<times> json) list"

text \<open>
  An exception is its class with \<^verbatim>\<open>str(e)\<close>. \<open>TransportError\<close> stands for
  whatever the Bedrock client, the body stream or the UTF-8 decoder raises;
  \<open>RerunException\<close> is what \<^verbatim>\<open>st.rerun()\<close> raises to stop the script;
  \<open>Unmodelled\<close> is no exception of Python: it stops a run that would put a key
  that is not a string into a dictionary, which the dictionaries of this model
  cannot hold.
\<close>

datatype py_exception =
    JSONDecodeError string
  | AttributeError string
  | TypeError string
  | KeyError string
  | IndexError string
  | ValueError string
  | RecursionError string
  | TransportError string
  | RerunException
  | Unmodelled

fun str_of_exception :: "py_exception \<Rightarrow> string" where
  "str_of_exception (JSONDecodeError m) = m"
| "str_of_exception (AttributeError m) = m"
| "str_of_exception (TypeError m) = m"
| "str_of_exception (KeyError m) = m"
| "str_of_exception (IndexError m) = m"
| "str_of_exception (ValueError m) = m"
| "str_of_exception (RecursionError m) = m"
| "str_of_exception (TransportError m) = m"
| "str_of_exception RerunException = []"
| "str_of_exception Unmodelled = []"

text \<open>\<^verbatim>\<open>type(v).__name__\<close>, as the interpreter's messages print it.\<close>

fun type_name :: "json \<Rightarrow> string" where
  "type_name JNull = ''NoneType''"
| "type_name (JBool _) = ''bool''"
| "type_name (JInt _) = ''int''"
| "type_name (JFloat _) = ''float''"
| "type_name (JStr _) = ''str''"
| "type_name (JArr _) = ''list''"
| "type_name (JObj _) = ''dict''"

text \<open>A name in single quotes, and the message of a missing attribute.\<close>

definition squote :: "string \<Rightarrow> string" where
  "squote s = CHR 0x27 # s @ [CHR 0x27]"

definition no_attribute :: "json \<Rightarrow> string \<Rightarrow> string" where
  "no_attribute v name = squote (type_name v) @ '' object has no attribute '' @ squote name"

text \<open>
  \<^verbatim>\<open>repr\<close> of a string of code points below 256: in single quotes, or in double
  quotes when the string holds a single quote and no double quote; the quote in use
  and the backslash are escaped, and so is a character that is not printable.
\<close>

definition hex_digit :: "nat \<Rightarrow> char" where
  "hex_digit n = ''0123456789abcdef'' ! (n mod 16)"

definition is_printable :: "char \<Rightarrow> bool" where
  "is_printable c =
     (let n = (of_char c :: nat)
      in \<not> (n < 32 \<or> (127 \<le> n \<and> n \<le> 160) \<or> n = 173))"

definition repr_char :: "char \<Rightarrow> char \<Rightarrow> string" where
  "repr_char q c =
     (if c = q \<or> c = CHR 0x5C then [CHR 0x5C, c]
      else if c = CHR 0x09 then [CHR 0x5C, CHR ''t'']
      else if c = CHR 0x0A then [CHR 0x5C, CHR ''n'']
      else if c = CHR 0x0D then [CHR 0x5C, CHR ''r'']
      else if \<not> is_printable c
        then [CHR 0x5C, CHR ''x'', hex_digit (of_char c div 16), hex_digit (of_char c)]
      else [c])"

definition py_repr_str :: "string \<Rightarrow> string" where
  "py_repr_str s =
     (let q = (if CHR 0x27 \<in> set s \<and> CHR 0x22 \<notin> set s then CHR 0x22 else CHR 0x27)
      in q # concat (map (repr_char q) s) @ [q])"

subsection \<open>Dictionaries\<close>

text \<open>\<^verbatim>\<open>d.get(k)\<close> as an option, \<^verbatim>\<open>k in d\<close>, \<^verbatim>\<open>d[k] = v\<close> and \<^verbatim>\<open>{**a, **b}\<close>.\<close>

definition dict_get :: "string \<Rightarrow> dict \<Rightarrow> json option" where
  "dict_get k d = map_of d k"

definition dict_has :: "string \<Rightarrow> dict \<Rightarrow> bool" where
  "dict_has k d = (k \<in> set (map fst d))"

fun dict_set :: "string \<Rightarrow> json \<Rightarrow> dict \<Rightarrow> dict" where
  "dict_set k v [] = [(k, v)]"
| "dict_set k v ((k', v') # d) =
     (if k' = k then (k, v) # d else (k', v') # dict_set k v d)"

definition dict_merge :: "dict \<Rightarrow> dict \<Rightarrow> dict" where
  "dict_merge a b = foldl (\<lambda>d (k, v). dict_set k v d) a b"

text \<open>
  \<^verbatim>\<open>{**v}\<close> for an object \<open>v\<close>: a new dictionary with the entries of a mapping, a
  \<^verbatim>\<open>TypeError\<close> for anything else.
\<close>

fun unpack_mapping :: "json \<Rightarrow> py_exception + dict" where
  "unpack_mapping (JObj d) = Inr d"
| "unpack_mapping v = Inl (TypeError (squote (type_name v) @ '' object is not a mapping''))"

text \<open>\<^verbatim>\<open>v.get(k, default)\<close>: only a dictionary has the method.\<close>

fun py_get :: "json \<Rightarrow> string \<Rightarrow> json \<Rightarrow> py_exception + json" where
  "py_get (JObj d) k dflt = Inr (case dict_get k d of None \<Rightarrow> dflt | Some v \<Rightarrow> v)"
| "py_get v k dflt =
     Inl (AttributeError (no_attribute v ''get''))"

section \<open>The response combiner\<close>

text \<open>
  \<^verbatim>\<open>
  def combine_responses(model_response, collected_details):
      combined_response = model_response.copy()
      combined_details = {
          **model_response.get("provided_details", {})
          # ,
          # **collected_details
      }
      combined_response["provided_details"] = combined_details
      return combined_response
  \<close>
  Dictionaries and lists have \<^verbatim>\<open>copy\<close>; of the two only a dictionary has \<^verbatim>\<open>get\<close>.
\<close>

fun py_copy :: "json \<Rightarrow> py_exception + json" where
  "py_copy (JObj d) = Inr (JObj d)"
| "py_copy (JArr xs) = Inr (JArr xs)"
| "py_copy v =
     Inl (AttributeError (no_attribute v ''copy''))"

fun set_item :: "json \<Rightarrow> string \<Rightarrow> json \<Rightarrow> py_exception + json" where
  "set_item (JObj d) k v = Inr (JObj (dict_set k v d))"
| "set_item (JArr xs) k v = Inl (TypeError ''list indices must be integers or slices, not str'')"
| "set_item w k v =
     Inl (TypeError (squote (type_name w) @ '' object does not support item assignment''))"

definition combine_responses :: "json \<Rightarrow> dict \<Rightarrow> py_exception + json" where
  "combine_responses model_response collected_details =
     (case py_copy model_response of
        Inl e \<Rightarrow> Inl e
      | Inr combined_response \<Rightarrow>
          (case py_get model_response ''provided_details'' (JObj []) of
             Inl e \<Rightarrow> Inl e
           | Inr pd \<Rightarrow>
               (case unpack_mapping pd of
                  Inl e \<Rightarrow> Inl e
                | Inr combined_details \<Rightarrow>
                    set_item combined_response ''provided_details'' (JObj combined_details))))"

section \<open>Session state and the chat log\<close>

text \<open>
  \<^verbatim>\<open>st.session_state\<close>: the chat history (sender and message of each entry), the set
  of questions already asked, the collected details, the draft proposal, the final
  response (both \<^verbatim>\<open>None\<close> at the start), the missing keys and the display flag.
\<close>

record session_state =
  chat_history :: "(string \<times> string) list"
  asked_questions :: "string set"
  collected_details :: dict
  response :: json
  final_response :: json
  missing_keys :: json
  show_final_response :: bool

definition initial_state :: session_state where
  "initial_state =
     \<lparr> chat_history = [], asked_questions = {}, collected_details = [],
       response = JNull, final_response = JNull, missing_keys = JArr [],
       show_final_response = False \<rparr>"

text \<open>
  \<^verbatim>\<open>
  def log_chat(sender, message):
      if sender == "Bot" and message in st.session_state.asked_questions:
          return
      st.session_state.chat_history.append({"sender": sender, "message": message})
      if sender == "Bot":
          st.session_state.asked_questions.add(message)
  \<close>
\<close>

definition log_chat :: "string \<Rightarrow> string \<Rightarrow> session_state \<Rightarrow> session_state" where
  "log_chat sender message s =
     (if sender = ''Bot'' \<and> message \<in> asked_questions s then s
      else
        let s1 = s\<lparr>chat_history := chat_history s @ [(sender, message)]\<rparr>
        in if sender = ''Bot''
           then s1\<lparr>asked_questions := insert message (asked_questions s1)\<rparr>
           else s1)"

text \<open>A run of calls \<^verbatim>\<open>log_chat(sender, message)\<close>, in order.\<close>

definition log_all :: "(string \<times> string) list \<Rightarrow> session_state \<Rightarrow> session_state" where
  "log_all calls s = foldl (\<lambda>t (sender, message). log_chat sender message t) s calls"

text \<open>The message texts of the transcript's entries with sender \<^verbatim>\<open>"Bot"\<close>.\<close>

definition bot_messages :: "session_state \<Rightarrow> string list" where
  "bot_messages s = map snd (filter (\<lambda>e. fst e = ''Bot'') (chat_history s))"

section \<open>The relevance classifier\<close>

text \<open>
  \<^verbatim>\<open>str.lower()\<close> on code points below 256: the ASCII capitals and the Latin-1
  capitals \<open>0xC0\<close> to \<open>0xDE\<close> (all but the multiplication sign \<open>0xD7\<close>) move up by 32.
\<close>

definition lower_char :: "char \<Rightarrow> char" where
  "lower_char c =
     (let n = (of_char c :: nat)
      in if (65 \<le> n \<and> n \<le> 90) \<or> (192 \<le> n \<and> n \<le> 222 \<and> n \<noteq> 215)
         then char_of (n + 32) else c)"

definition py_lower :: "string \<Rightarrow> string" where
  "py_lower s = map lower_char s"

text \<open>\<^verbatim>\<open>s.startswith(p)\<close> and the substring test \<^verbatim>\<open>needle in s\<close>.\<close>

fun starts_with :: "string \<Rightarrow> string \<Rightarrow> bool" where
  "starts_with [] s = True"
| "starts_with (p # ps) [] = False"
| "starts_with (p # ps) (c # cs) = (p = c \<and> starts_with ps cs)"

fun str_contains :: "string \<Rightarrow> string \<Rightarrow> bool" where
  "str_contains needle [] = (needle = [])"
| "str_contains needle (c # cs) = (starts_with needle (c # cs) \<or> str_contains needle cs)"

text \<open>
  \<^verbatim>\<open>
  TAX_KEYWORDS = ["tax", "filing", "tax preparation", "tax filing"]

  def is_tax_related(user_input):
      return any(keyword in user_input.lower() for keyword in TAX_KEYWORDS)
  \<close>
\<close>

definition TAX_KEYWORDS :: "string list" where
  "TAX_KEYWORDS = [''tax'', ''filing'', ''tax preparation'', ''tax filing'']"

definition is_tax_related :: "string \<Rightarrow> bool" where
  "is_tax_related user_input =
     list_ex (\<lambda>keyword. str_contains keyword (py_lower user_input)) TAX_KEYWORDS"

section \<open>The JSON decoder\<close>

text \<open>
  \<^verbatim>\<open>json.loads\<close> of the standard library, after the scanner of CPython: white space
  is blank, tab, line feed and carriage return; an error is a message with the place
  in the text where the scanner stopped, kept here as the text that was left. An
  integer of more digits than the interpreter converts (4300, the default of
  \<^verbatim>\<open>sys.set_int_max_str_digits\<close>) is refused with the number of its digits. The
  scanner runs on fuel, one unit for each value or item it starts; the limit of the
  interpreter on the depth of nesting is not modelled.
\<close>

datatype scan_error = Decode string string | Depth | Digits nat

type_synonym 'a scan = "scan_error + 'a \<times> string"

definition is_ws :: "char \<Rightarrow> bool" where
  "is_ws c = (c = CHR '' '' \<or> c = CHR 0x09 \<or> c = CHR 0x0A \<or> c = CHR 0x0D)"

definition skip_ws :: "string \<Rightarrow> string" where
  "skip_ws s = dropWhile is_ws s"

definition is_digit :: "char \<Rightarrow> bool" where
  "is_digit c = (c \<in> set ''0123456789'')"

definition digit_val :: "char \<Rightarrow> nat" where
  "digit_val c = of_char c - 48"

definition nat_of_digits :: "string \<Rightarrow> nat" where
  "nat_of_digits ds = foldl (\<lambda>n c. 10 * n + digit_val c) 0 ds"

definition hex_val :: "char \<Rightarrow> nat option" where
  "hex_val c =
     (let n = (of_char c :: nat)
      in if 48 \<le> n \<and> n \<le> 57 then Some (n - 48)
         else if 65 \<le> n \<and> n \<le> 70 then Some (n - 55)
         else if 97 \<le> n \<and> n \<le> 102 then Some (n - 87)
         else None)"

text \<open>The four hexadecimal digits of a \<^verbatim>\<open>\uXXXX\<close> escape.\<close>

definition hex4 :: "string \<Rightarrow> nat option" where
  "hex4 ds =
     (case map hex_val ds of
        [Some a, Some b, Some c, Some d] \<Rightarrow> Some (((a * 16 + b) * 16 + c) * 16 + d)
      | _ \<Rightarrow> None)"

text \<open>The character a one-letter escape stands for.\<close>

definition unescape :: "char \<Rightarrow> char option" where
  "unescape e =
     (if e = CHR 0x22 \<or> e = CHR 0x5C \<or> e = CHR ''/'' then Some e
      else if e = CHR ''b'' then Some (CHR 0x08)
      else if e = CHR ''f'' then Some (CHR 0x0C)
      else if e = CHR ''n'' then Some (CHR 0x0A)
      else if e = CHR ''r'' then Some (CHR 0x0D)
      else if e = CHR ''t'' then Some (CHR 0x09)
      else None)"

text \<open>
  The body of a string, after its opening quote; \<open>begin\<close> is the text from that quote
  on. A \<^verbatim>\<open>\uXXXX\<close> escape needs its four digits and one more character after them.
  An escape above \<open>00FF\<close> names a character that the strings of this model do not
  have; the scanner stops there with a message of its own.
\<close>

fun scanstring :: "string \<Rightarrow> string \<Rightarrow> string \<Rightarrow> string scan" where
  "scanstring begin acc [] = Inl (Decode ''Unterminated string starting at'' begin)"
| "scanstring begin acc [c] =
     (if c = CHR 0x22 then Inr (acc, [])
      else if c = CHR 0x5C then Inl (Decode ''Unterminated string starting at'' begin)
      else if (of_char c :: nat) < 32 then Inl (Decode ''Invalid control character at'' [c])
      else scanstring begin (acc @ [c]) [])"
| "scanstring begin acc (c # e # r) =
     (if c = CHR 0x22 then Inr (acc, e # r)
      else if c = CHR 0x5C then
        (if e = CHR ''u'' then
           (if length r \<le> 4 then Inl (Decode (''Invalid '' @ CHR 0x5C # ''uXXXX escape'') (e # r))
            else
              (case hex4 (take 4 r) of
                 None \<Rightarrow> Inl (Decode (''Invalid '' @ CHR 0x5C # ''uXXXX escape'') (e # r))
               | Some n \<Rightarrow>
                   if n < 256 then scanstring begin (acc @ [char_of n]) (drop 4 r)
                   else Inl (Decode ''character outside Latin-1'' (e # r))))
         else
           (case unescape e of
              None \<Rightarrow> Inl (Decode (''Invalid '' @ CHR 0x5C # ''escape'') (c # e # r))
            | Some ch \<Rightarrow> scanstring begin (acc @ [ch]) r))
      else if (of_char c :: nat) < 32 then Inl (Decode ''Invalid control character at'' (c # e # r))
      else scanstring begin (acc @ [c]) (e # r))"

text \<open>
  A number: an optional minus, \<open>0\<close> or a digit string without leading zero, a fraction
  when a dot is followed by a digit, an exponent when \<open>e\<close> is followed by digits (after
  a sign that is not the last character). With fraction or exponent it is a float.
\<close>

definition integer_part :: "string \<Rightarrow> string" where
  "integer_part s =
     (case s of
        [] \<Rightarrow> []
      | c # r \<Rightarrow>
          if c = CHR ''0'' then [c]
          else if is_digit c then c # takeWhile is_digit r
          else [])"

definition fraction_part :: "string \<Rightarrow> string" where
  "fraction_part s =
     (case s of
        d # f # r \<Rightarrow>
          if d = CHR ''.'' \<and> is_digit f then d # takeWhile is_digit (f # r) else []
      | _ \<Rightarrow> [])"

definition exponent_part :: "string \<Rightarrow> string" where
  "exponent_part s =
     (case s of
        x # y # r \<Rightarrow>
          if x = CHR ''e'' \<or> x = CHR ''E'' then
            (let sgn = (if (y = CHR ''-'' \<or> y = CHR ''+'') \<and> r \<noteq> [] then [y] else []);
                 ds = takeWhile is_digit (drop (length sgn) (y # r))
             in if ds = [] then [] else x # sgn @ ds)
          else []
      | _ \<Rightarrow> [])"

definition MAX_STR_DIGITS :: nat where
  "MAX_STR_DIGITS = 4300"

definition match_number :: "string \<Rightarrow> json scan option" where
  "match_number s =
     (let neg = starts_with ''-'' s;
          s1 = (if neg then tl s else s);
          ipart = integer_part s1
      in if ipart = [] then None
         else
           let r1 = drop (length ipart) s1;
               frac = fraction_part r1;
               r2 = drop (length frac) r1;
               expo = exponent_part r2;
               r3 = drop (length expo) r2
           in if frac = [] \<and> expo = []
              then (if MAX_STR_DIGITS < length ipart then Some (Inl (Digits (length ipart)))
                    else Some (Inr (JInt (if neg then - int (nat_of_digits ipart)
                                          else int (nat_of_digits ipart)), r3)))
              else Some (Inr (JFloat ((if neg then ''-'' else []) @ ipart @ frac @ expo), r3)))"

text \<open>
  A value, the items of an object after \<open>{\<close> or a comma, the items of an array after
  \<open>[\<close> or a comma. A key said twice keeps its first place and its last value.
\<close>

fun scan_once :: "nat \<Rightarrow> string \<Rightarrow> json scan"
  and object_items :: "nat \<Rightarrow> dict \<Rightarrow> string \<Rightarrow> json scan"
  and array_items :: "nat \<Rightarrow> json list \<Rightarrow> string \<Rightarrow> json scan"
where
  "scan_once 0 s = Inl Depth"
| "scan_once (Suc n) [] = Inl (Decode ''Expecting value'' [])"
| "scan_once (Suc n) (c # r) =
     (if c = CHR 0x22 then
        (case scanstring (c # r) [] r of
           Inl e \<Rightarrow> Inl e
         | Inr (str, r1) \<Rightarrow> Inr (JStr str, r1))
      else if c = CHR ''{'' then
        (case skip_ws r of
           [] \<Rightarrow> object_items n [] []
         | d # r1 \<Rightarrow> if d = CHR ''}'' then Inr (JObj [], r1) else object_items n [] (d # r1))
      else if c = CHR ''['' then
        (case skip_ws r of
           [] \<Rightarrow> array_items n [] []
         | d # r1 \<Rightarrow> if d = CHR '']'' then Inr (JArr [], r1) else array_items n [] (d # r1))
      else if starts_with ''null'' (c # r) then Inr (JNull, drop 4 (c # r))
      else if starts_with ''true'' (c # r) then Inr (JBool True, drop 4 (c # r))
      else if starts_with ''false'' (c # r) then Inr (JBool False, drop 5 (c # r))
      else if starts_with ''NaN'' (c # r) then Inr (JFloat ''NaN'', drop 3 (c # r))
      else if starts_with ''Infinity'' (c # r) then Inr (JFloat ''Infinity'', drop 8 (c # r))
      else if starts_with ''-Infinity'' (c # r) then Inr (JFloat ''-Infinity'', drop 9 (c # r))
      else
        (case match_number (c # r) of
           None \<Rightarrow> Inl (Decode ''Expecting value'' (c # r))
         | Some scanned \<Rightarrow> scanned))"
| "object_items 0 acc s = Inl Depth"
| "object_items (Suc n) acc [] =
     Inl (Decode ''Expecting property name enclosed in double quotes'' [])"
| "object_items (Suc n) acc (q # r) =
     (if q \<noteq> CHR 0x22 then
        Inl (Decode ''Expecting property name enclosed in double quotes'' (q # r))
      else
        (case scanstring (q # r) [] r of
           Inl e \<Rightarrow> Inl e
         | Inr (key, r1) \<Rightarrow>
             (case skip_ws r1 of
                [] \<Rightarrow> Inl (Decode (''Expecting '' @ squote '':'' @ '' delimiter'') [])
              | colon # r2 \<Rightarrow>
                  if colon \<noteq> CHR '':'' then
                    Inl (Decode (''Expecting '' @ squote '':'' @ '' delimiter'') (colon # r2))
                  else
                    (case scan_once n (skip_ws r2) of
                       Inl e \<Rightarrow> Inl e
                     | Inr (v, r3) \<Rightarrow>
                         (case skip_ws r3 of
                            [] \<Rightarrow> Inl (Decode (''Expecting '' @ squote '','' @ '' delimiter'') [])
                          | d # r4 \<Rightarrow>
                              if d = CHR ''}'' then Inr (JObj (dict_set key v acc), r4)
                              else if d = CHR '','' then
                                object_items n (dict_set key v acc) (skip_ws r4)
                              else Inl (Decode (''Expecting '' @ squote '','' @ '' delimiter'')
                                          (d # r4)))))))"
| "array_items 0 acc s = Inl Depth"
| "array_items (Suc n) acc s =
     (case scan_once n s of
        Inl e \<Rightarrow> Inl e
      | Inr (v, r1) \<Rightarrow>
          (case skip_ws r1 of
             [] \<Rightarrow> Inl (Decode (''Expecting '' @ squote '','' @ '' delimiter'') [])
           | d # r2 \<Rightarrow>
               if d = CHR '']'' then Inr (JArr (acc @ [v]), r2)
               else if d = CHR '','' then array_items n (acc @ [v]) (skip_ws r2)
               else Inl (Decode (''Expecting '' @ squote '','' @ '' delimiter'') (d # r2))))"

text \<open>
  A result of the scanner that is no lack of fuel and, when it is a value, has left
  less of the text \<open>s\<close> than it was given.
\<close>

definition within_fuel :: "'a scan \<Rightarrow> string \<Rightarrow> bool" where
  "within_fuel x s =
     (case x of
        Inl Depth \<Rightarrow> False
      | Inl (Decode msg rest) \<Rightarrow> True
      | Inl (Digits n) \<Rightarrow> True
      | Inr (v, r) \<Rightarrow> length r < length s)"

text \<open>
  The message of a \<^verbatim>\<open>JSONDecodeError\<close> at offset \<open>pos\<close> of the text \<open>doc\<close>:
  \<^verbatim>\<open>'%s: line %d column %d (char %d)'\<close>, the line counted by the line feeds before
  \<open>pos\<close> and the column from the last of them.
\<close>

fun show_nat :: "nat \<Rightarrow> string" where
  "show_nat n =
     (if n < 10 then [char_of (48 + n)]
      else show_nat (n div 10) @ [char_of (48 + n mod 10)])"

definition errmsg :: "string \<Rightarrow> string \<Rightarrow> nat \<Rightarrow> string" where
  "errmsg msg doc pos =
     (let passed = take pos doc;
          lineno = length (filter (\<lambda>c. c = CHR 0x0A) passed) + 1;
          colno = length (takeWhile (\<lambda>c. c \<noteq> CHR 0x0A) (rev passed)) + 1
      in msg @ '': line '' @ show_nat lineno @ '' column '' @ show_nat colno
           @ '' (char '' @ show_nat pos @ '')'')"

text \<open>
  \<^verbatim>\<open>json.loads(doc)\<close>: one value between white space, and nothing after it. The fuel
  is more than twice the length of the text, which the scanner cannot use up (lemma
  \<open>fuel_suffices\<close>), so the first case never applies.
\<close>

definition json_loads :: "string \<Rightarrow> py_exception + json" where
  "json_loads doc =
     (case scan_once (Suc (2 * length doc)) (skip_ws doc) of
        Inl Depth \<Rightarrow> Inl (RecursionError ''maximum recursion depth exceeded'')
      | Inl (Decode msg rest) \<Rightarrow>
          Inl (JSONDecodeError (errmsg msg doc (length doc - length rest)))
      | Inl (Digits n) \<Rightarrow>
          Inl (ValueError
                 (''Exceeds the limit ('' @ show_nat MAX_STR_DIGITS
                  @ '' digits) for integer string conversion: value has '' @ show_nat n
                  @ '' digits; use sys.set_int_max_str_digits() to increase the limit''))
      | Inr (v, rest) \<Rightarrow>
          (case skip_ws rest of
             [] \<Rightarrow> Inr v
           | c # r \<Rightarrow>
               Inl (JSONDecodeError (errmsg ''Extra data'' doc (length doc - length (c # r))))))"

text \<open>\<^verbatim>\<open>json.loads(v)\<close> for an object \<open>v\<close>: what is not a string is refused.\<close>

fun py_json_loads :: "json \<Rightarrow> py_exception + json" where
  "py_json_loads (JStr s) = json_loads s"
| "py_json_loads v =
     Inl (TypeError (''the JSON object must be str, bytes or bytearray, not '' @ type_name v))"

subsection \<open>Truth value of an object\<close>

text \<open>
  Truth value of an object in a condition (\<^verbatim>\<open>if v:\<close>). A float is kept as the literal
  it was read from, \<^verbatim>\<open>[-]digits[.digits][e[+-]digits]\<close>, \<^verbatim>\<open>NaN\<close> or \<^verbatim>\<open>[-]Infinity\<close>.
  The literal \<open>m * 10 ^ e\<close> is read as the nearest double, ties to even, so it is zero
  when \<open>m\<close> is \<open>0\<close> or when \<open>m * 10 ^ e\<close> is at most \<open>1 / 2 ^ 1075\<close>, half of the
  least positive double.
\<close>

definition float_is_zero :: "string \<Rightarrow> bool" where
  "float_is_zero lit =
     (let body = (if starts_with ''-'' lit then tl lit else lit);
          mant = takeWhile (\<lambda>c. c \<noteq> CHR ''e'' \<and> c \<noteq> CHR ''E'') body;
          expo = drop (Suc (length mant)) body;
          ipart = takeWhile is_digit mant;
          fpart = drop (Suc (length ipart)) mant;
          m = nat_of_digits (ipart @ fpart);
          ex = (case expo of
                  [] \<Rightarrow> 0
                | c # ds \<Rightarrow>
                    if c = CHR ''-'' then - int (nat_of_digits ds)
                    else if c = CHR ''+'' then int (nat_of_digits ds)
                    else int (nat_of_digits expo));
          e10 = ex - int (length fpart)
      in ipart \<noteq> [] \<and> (m = 0 \<or> (e10 < 0 \<and> m * 2 ^ 1075 \<le> 10 ^ nat (- e10))))"

fun py_truthy :: "json \<Rightarrow> bool" where
  "py_truthy JNull = False"
| "py_truthy (JBool b) = b"
| "py_truthy (JInt i) = (i \<noteq> 0)"
| "py_truthy (JFloat lit) = (\<not> float_is_zero lit)"
| "py_truthy (JStr s) = (s \<noteq> [])"
| "py_truthy (JArr xs) = (xs \<noteq> [])"
| "py_truthy (JObj d) = (d \<noteq> [])"

section \<open>The two calls of the model service\<close>

text \<open>
  What \<^verbatim>\<open>bedrock_client.invoke_model(...)\<close>, reading the body and decoding it as
  UTF-8 give: the exception one of them raised, or the decoded body. The prompt only
  travels to the service, so the arguments that are formatted into it
  (\<^verbatim>\<open>user_input\<close>, \<^verbatim>\<open>model_response\<close>) are not arguments of the model.
\<close>

type_synonym reply = "py_exception + string"

text \<open>Sequencing of steps that may raise.\<close>

definition and_then :: "py_exception + 'a \<Rightarrow> ('a \<Rightarrow> py_exception + 'b) \<Rightarrow> py_exception + 'b" where
  "and_then x f = (case x of Inl e \<Rightarrow> Inl e | Inr v \<Rightarrow> f v)"

text \<open>\<^verbatim>\<open>v[0]\<close> and \<^verbatim>\<open>v[k]\<close> for a string \<open>k\<close>.\<close>

fun subscript_zero :: "json \<Rightarrow> py_exception + json" where
  "subscript_zero (JArr []) = Inl (IndexError ''list index out of range'')"
| "subscript_zero (JArr (x # xs)) = Inr x"
| "subscript_zero (JStr []) = Inl (IndexError ''string index out of range'')"
| "subscript_zero (JStr (c # cs)) = Inr (JStr [c])"
| "subscript_zero (JObj d) = Inl (KeyError ''0'')"
| "subscript_zero v = Inl (TypeError (squote (type_name v) @ '' object is not subscriptable''))"

fun subscript_str :: "json \<Rightarrow> string \<Rightarrow> py_exception + json" where
  "subscript_str (JObj d) k =
     (case dict_get k d of None \<Rightarrow> Inl (KeyError (py_repr_str k)) | Some v \<Rightarrow> Inr v)"
| "subscript_str (JArr xs) k =
     Inl (TypeError ''list indices must be integers or slices, not str'')"
| "subscript_str (JStr s) k =
     Inl (TypeError (''string indices must be integers, not '' @ squote ''str''))"
| "subscript_str v k = Inl (TypeError (squote (type_name v) @ '' object is not subscriptable''))"

text \<open>
  \<^verbatim>\<open>content.find("{")\<close>: the offset of the first brace, \<open>None\<close> for Python's \<open>-1\<close>;
  only a string has the method.
\<close>

fun find_char :: "char \<Rightarrow> string \<Rightarrow> nat option" where
  "find_char x [] = None"
| "find_char x (c # cs) =
     (if c = x then Some 0 else map_option Suc (find_char x cs))"

fun py_find_brace :: "json \<Rightarrow> py_exception + (string \<times> nat option)" where
  "py_find_brace (JStr s) = Inr (s, find_char (CHR ''{'') s)"
| "py_find_brace v = Inl (AttributeError (no_attribute v ''find''))"

text \<open>
  \<^verbatim>\<open>str.strip()\<close> on code points below 256: the white space of \<^verbatim>\<open>str.isspace\<close>
  is cut from both ends.
\<close>

definition is_space :: "char \<Rightarrow> bool" where
  "is_space c =
     (let n = (of_char c :: nat)
      in (9 \<le> n \<and> n \<le> 13) \<or> (28 \<le> n \<and> n \<le> 32) \<or> n = 133 \<or> n = 160)"

definition py_strip :: "string \<Rightarrow> string" where
  "py_strip s = rev (dropWhile is_space (rev (dropWhile is_space s)))"

definition error_response :: "string \<Rightarrow> json" where
  "error_response msg = JObj [(''error'', JStr msg)]"

text \<open>
  \<^verbatim>\<open>
  def analyze_details_with_bedrock(user_input, model_response):
      prompt = f"""..."""
      try:
          ...
          response = bedrock_client.invoke_model(modelId=..., body=request_body)
          response_body = response.get("body").read().decode("utf-8")
          if not response_body:
              return {"error": "Empty response from the model"}
          full_response = json.loads(response_body)
          content = full_response.get("content", [])[0].get("text", "")
          start_index = content.find("{")
          if start_index == -1:
              return {"error": "No JSON object found in model response"}
          result_json = json.loads(content[start_index:])
          return result_json
      except json.JSONDecodeError as e:
          return {"error": f"JSON parsing error: {str(e)}"}
      except Exception as e:
          return {"error": f"Exception occurred: {str(e)}"}
  \<close>
\<close>

definition analyze_handler :: "py_exception \<Rightarrow> json" where
  "analyze_handler e =
     (case e of
        JSONDecodeError m \<Rightarrow> error_response (''JSON parsing error: '' @ m)
      | _ \<Rightarrow> error_response (''Exception occurred: '' @ str_of_exception e))"

definition analyze_details_with_bedrock :: "reply \<Rightarrow> json" where
  "analyze_details_with_bedrock invoked =
     (case invoked of
        Inl e \<Rightarrow> analyze_handler e
      | Inr response_body \<Rightarrow>
          if response_body = [] then error_response ''Empty response from the model''
          else
            (case and_then (json_loads response_body) (\<lambda>full_response.
                  and_then (py_get full_response ''content'' (JArr [])) (\<lambda>blocks.
                  and_then (subscript_zero blocks) (\<lambda>block.
                  and_then (py_get block ''text'' (JStr [])) (\<lambda>content.
                  py_find_brace content)))) of
               Inl e \<Rightarrow> analyze_handler e
             | Inr (content, None) \<Rightarrow> error_response ''No JSON object found in model response''
             | Inr (content, Some start_index) \<Rightarrow>
                 (case json_loads (drop start_index content) of
                    Inl e \<Rightarrow> analyze_handler e
                  | Inr result_json \<Rightarrow> result_json)))"

text \<open>
  \<^verbatim>\<open>
  def generate_proposal(user_input):
      ...
      try:
          ...
          response = bedrock_client.invoke_model(modelId=..., body=request_body,
                                                 contentType="application/json")
          response_body = response["body"].read().decode("utf-8")
          if not response_body or not response_body.strip():
              return {"error": "Empty or invalid response from the model"}
          raw_content = json.loads(response_body)
          content_text = raw_content.get("content")[0]["text"]
          return json.loads(content_text)  # Final parsed JSON object
      except Exception as e:
          return {"error": f"Exception occurred: {str(e)}"}
  \<close>
\<close>

definition generate_handler :: "py_exception \<Rightarrow> json" where
  "generate_handler e = error_response (''Exception occurred: '' @ str_of_exception e)"

definition generate_proposal :: "reply \<Rightarrow> json" where
  "generate_proposal invoked =
     (case invoked of
        Inl e \<Rightarrow> generate_handler e
      | Inr response_body \<Rightarrow>
          if response_body = [] \<or> py_strip response_body = []
          then error_response ''Empty or invalid response from the model''
          else
            (case and_then (json_loads response_body) (\<lambda>raw_content.
                  and_then (py_get raw_content ''content'' JNull) (\<lambda>blocks.
                  and_then (subscript_zero blocks) (\<lambda>block.
                  and_then (subscript_str block ''text'') (\<lambda>content_text.
                  py_json_loads content_text)))) of
               Inl e \<Rightarrow> generate_handler e
             | Inr result \<Rightarrow> result))"

section \<open>The Streamlit script\<close>

text \<open>
  One run of the script reads what the widgets hold and what the model service
  replies, changes the session state and renders elements. \<open>env\<close> is what a run
  reads: the text area, the buttons (by key, or by label when they have no key), the
  text inputs, and the reply to each of the four calls of the service, by the place
  of the call. A text input that starts empty (\<^verbatim>\<open>st.text_input(label, key=...)\<close>)
  holds a string, read by its key; one that starts with a value
  (\<^verbatim>\<open>st.text_input(label, value=value, key=...)\<close>) holds a string or, while nothing
  was entered over the value \<^verbatim>\<open>None\<close>, \<^verbatim>\<open>None\<close>, read by its key and that value. Rendering is kept for text
  inputs, headings, messages and JSON panels; the title, the captions, the spinner,
  the columns and the pen of the review rows leave no trace.
\<close>

record env =
  text_area :: string
  button :: "string \<Rightarrow> bool"
  text_input :: "string \<Rightarrow> string"
  edit_input :: "string \<Rightarrow> json \<Rightarrow> string option"
  proposal_reply :: reply
  analysis_reply :: reply
  confirm_analysis_reply :: reply
  confirm_proposal_reply :: reply

datatype element =
    Markdown string
  | TextInput string json string
  | Subheader string
  | Success string
  | Error string json
  | Json json

record run =
  session :: session_state
  screen :: "element list"

text \<open>A step of the script: the exception that stopped it, if any, and the run so far.\<close>

type_synonym step = "run \<Rightarrow> py_exception option \<times> run"

definition render :: "element \<Rightarrow> run \<Rightarrow> run" where
  "render e r = r\<lparr>screen := screen r @ [e]\<rparr>"

definition on_session :: "(session_state \<Rightarrow> session_state) \<Rightarrow> run \<Rightarrow> run" where
  "on_session f r = r\<lparr>session := f (session r)\<rparr>"

definition REQUIRED_LEAD_DETAILS :: "(string \<times> string) list" where
  "REQUIRED_LEAD_DETAILS =
     [(''Annual Revenue'', ''What is the approximate annual revenue of your business?''),
      (''Industry'', ''Which industry does your business operate in?''),
      (''Entity Type'',
         ''What is the entity type of your business (e.g., LLC, Corporation)?''),
      (''Publicly Traded'', ''Is your business publicly traded or privately held?''),
      (''Primary Accounting Software'',
         ''What is the primary accounting software your business uses (e.g., QuickBooks, Xero)?''),
      (''Months to Clean-Up'', ''How many months of bookkeeping clean-up are needed?''),
      (''Year to Be Filed'', ''Which financial year do you want to file taxes for?''),
      (''States to File Taxes'', ''Which states do you need to file taxes in?'')]"

text \<open>
  Iterating over an object (\<^verbatim>\<open>for key in v\<close>): the items of a list, the characters
  of a string, the keys of a dictionary.
\<close>

fun py_iter :: "json \<Rightarrow> py_exception + json list" where
  "py_iter (JArr xs) = Inr xs"
| "py_iter (JStr s) = Inr (map (\<lambda>c. JStr [c]) s)"
| "py_iter (JObj d) = Inr (map (\<lambda>kv. JStr (fst kv)) d)"
| "py_iter v = Inl (TypeError (squote (type_name v) @ '' object is not iterable''))"

text \<open>
  \<^verbatim>\<open>key not in d\<close> for a dictionary with string keys: a list or a dictionary cannot
  be hashed, and no other object equals a string.
\<close>

fun not_in_dict :: "json \<Rightarrow> dict \<Rightarrow> py_exception + bool" where
  "not_in_dict (JStr k) d = Inr (\<not> dict_has k d)"
| "not_in_dict (JArr xs) d = Inl (TypeError (''unhashable type: '' @ squote ''list''))"
| "not_in_dict (JObj kvs) d = Inl (TypeError (''unhashable type: '' @ squote ''dict''))"
| "not_in_dict v d = Inr True"

text \<open>The objects that can be hashed, and so can be looked up in a dictionary.\<close>

fun hashable :: "json \<Rightarrow> bool" where
  "hashable (JArr xs) = False"
| "hashable (JObj d) = False"
| "hashable v = True"

text \<open>\<^verbatim>\<open>[key for key in missing_keys if key not in collected_details]\<close>, item by item.\<close>

fun unanswered :: "json list \<Rightarrow> dict \<Rightarrow> py_exception + json list" where
  "unanswered [] d = Inr []"
| "unanswered (key # keys) d =
     and_then (not_in_dict key d) (\<lambda>missing.
     and_then (unanswered keys d) (\<lambda>rest.
     Inr (if missing then key # rest else rest)))"

text \<open>
  \<^verbatim>\<open>REQUIRED_LEAD_DETAILS[key]\<close>: the field name with its question. The message of
  the \<^verbatim>\<open>KeyError\<close> is the \<^verbatim>\<open>repr\<close> of the key; that of a float is taken to be its
  literal.
\<close>

definition show_int :: "int \<Rightarrow> string" where
  "show_int i = (if i < 0 then CHR ''-'' # show_nat (nat (- i)) else show_nat (nat i))"

fun required_question :: "json \<Rightarrow> py_exception + string \<times> string" where
  "required_question (JStr k) =
     (case map_of REQUIRED_LEAD_DETAILS k of
        None \<Rightarrow> Inl (KeyError (py_repr_str k))
      | Some question \<Rightarrow> Inr (k, question))"
| "required_question JNull = Inl (KeyError ''None'')"
| "required_question (JBool b) = Inl (KeyError (if b then ''True'' else ''False''))"
| "required_question (JInt i) = Inl (KeyError (show_int i))"
| "required_question (JFloat lit) = Inl (KeyError lit)"
| "required_question (JArr xs) = Inl (TypeError (''unhashable type: '' @ squote ''list''))"
| "required_question (JObj d) = Inl (TypeError (''unhashable type: '' @ squote ''dict''))"

text \<open>
  The details that the review shows:
  \<^verbatim>\<open>
  combined_details = {
      **st.session_state.response.get("provided_details", {}),
      **st.session_state.collected_details,
  }
  \<close>
\<close>

definition review_details :: "session_state \<Rightarrow> py_exception + dict" where
  "review_details s =
     and_then (py_get (response s) ''provided_details'' (JObj [])) (\<lambda>pd.
     and_then (unpack_mapping pd) (\<lambda>provided.
     Inr (dict_merge provided (collected_details s))))"

text \<open>
  The loop of the review: one text input for each detail, which starts with the
  detail's value, and the dictionary of what the inputs hold.
  \<^verbatim>\<open>
  edited_details = {}
  for key, value in combined_details.items():
      ...
      edited_details[key] = st.text_input(f"{key}:", value=value, key=f"edit-{key}")
  \<close>
\<close>

definition edit_inputs :: "dict \<Rightarrow> element list" where
  "edit_inputs combined_details =
     map (\<lambda>(key, v). TextInput (key @ '':'') v (''edit-'' @ key)) combined_details"

definition edited_value :: "string option \<Rightarrow> json" where
  "edited_value held = (case held of None \<Rightarrow> JNull | Some s \<Rightarrow> JStr s)"

definition edited_details :: "env \<Rightarrow> dict \<Rightarrow> dict" where
  "edited_details ui combined_details =
     foldl (\<lambda>d (key, v). dict_set key (edited_value (edit_input ui (''edit-'' @ key) v)) d)
       [] combined_details"

text \<open>The block under \<^verbatim>\<open>if st.button("Confirm Details"):\<close>.\<close>

definition confirm_details :: "env \<Rightarrow> dict \<Rightarrow> step" where
  "confirm_details ui edited r =
     (let r1 = render (Success ''Details confirmed!'') r;
          r2 = on_session (\<lambda>s. s\<lparr>collected_details := edited\<rparr>) r1
      in case combine_responses (response (session r2)) edited of
           Inl e \<Rightarrow> (Some e, r2)
         | Inr combined \<Rightarrow>
             let r3 = on_session (\<lambda>s. s\<lparr>final_response := combined\<rparr>) r2;
                 analyze_response = analyze_details_with_bedrock (confirm_analysis_reply ui);
                 proposal_response = generate_proposal (confirm_proposal_reply ui)
             in (None,
                 render (Json analyze_response)
                   (render (Json proposal_response)
                      (render (Subheader ''Generated Proposal Response:'') r3))))"

text \<open>
  \<^verbatim>\<open>
  def collect_missing_details_interactive(missing_keys):
      unanswered_keys = [key for key in missing_keys
                         if key not in st.session_state.collected_details]
      if unanswered_keys:
          key = unanswered_keys[0]
          question = REQUIRED_LEAD_DETAILS[key]
          log_chat("Bot", question)
          value = st.text_input(question, key=f"text-{key}")
          if st.button("Submit", key=f"submit-{key}"):
              if value:  # Ensure a valid response
                  st.session_state.collected_details[key] = value
                  log_chat("User", value)
                  st.rerun()
      elif st.session_state.collected_details:
          st.subheader("Review Your Details")
          combined_details = {...}
          edited_details = {}
          for key, value in combined_details.items(): ...
          if st.button("Confirm Details"): ...
      else:
          st.success("All questions answered!")
          st.session_state.final_response = combine_responses(
              st.session_state.response, st.session_state.collected_details)
      return None
  \<close>
\<close>

definition ask_question :: "env \<Rightarrow> string \<Rightarrow> string \<Rightarrow> step" where
  "ask_question ui key question r =
     (let r1 = on_session (log_chat ''Bot'' question) r;
          v = text_input ui (''text-'' @ key);
          r2 = render (TextInput question (JStr []) (''text-'' @ key)) r1
      in if button ui (''submit-'' @ key) then
           (if v \<noteq> [] then
              (Some RerunException,
               on_session (log_chat ''User'' v)
                 (on_session (\<lambda>s. s\<lparr>collected_details := dict_set key (JStr v) (collected_details s)\<rparr>)
                    r2))
            else (None, r2))
         else (None, r2))"

definition review :: "env \<Rightarrow> step" where
  "review ui r =
     (let r1 = render (Subheader ''Review Your Details'') r
      in case review_details (session r1) of
           Inl e \<Rightarrow> (Some e, r1)
         | Inr combined_details \<Rightarrow>
             let r2 = r1\<lparr>screen := screen r1 @ edit_inputs combined_details\<rparr>
             in if button ui ''Confirm Details''
                then confirm_details ui (edited_details ui combined_details) r2
                else (None, r2))"

definition all_answered :: step where
  "all_answered r =
     (let r1 = render (Success ''All questions answered!'') r
      in case combine_responses (response (session r1)) (collected_details (session r1)) of
           Inl e \<Rightarrow> (Some e, r1)
         | Inr combined \<Rightarrow> (None, on_session (\<lambda>s. s\<lparr>final_response := combined\<rparr>) r1))"

definition collect_missing_details_interactive :: "env \<Rightarrow> json \<Rightarrow> step" where
  "collect_missing_details_interactive ui missing r =
     (case and_then (py_iter missing)
             (\<lambda>keys. unanswered keys (collected_details (session r))) of
        Inl e \<Rightarrow> (Some e, r)
      | Inr [] \<Rightarrow>
          if collected_details (session r) \<noteq> [] then review ui r else all_answered r
      | Inr (key # _) \<Rightarrow>
          (case required_question key of
             Inl e \<Rightarrow> (Some e, r)
           | Inr (k, question) \<Rightarrow> ask_question ui k question r))"

text \<open>
  \<^verbatim>\<open>d.update(v)\<close>: the entries of a dictionary, or else the items of \<open>v\<close> one after
  the other, each a sequence of a key and a value. The dictionary keeps what was put
  into it before an item is refused.
\<close>

fun update_pairs :: "nat \<Rightarrow> json list \<Rightarrow> dict \<Rightarrow> py_exception option \<times> dict" where
  "update_pairs i [] d = (None, d)"
| "update_pairs i (item # items) d =
     (case py_iter item of
        Inl e \<Rightarrow>
          (Some (TypeError (''cannot convert dictionary update sequence element #''
                   @ show_nat i @ '' to a sequence'')), d)
      | Inr [JStr key, v] \<Rightarrow> update_pairs (Suc i) items (dict_set key v d)
      | Inr [JArr xs, v] \<Rightarrow> (Some (TypeError (''unhashable type: '' @ squote ''list'')), d)
      | Inr [JObj kvs, v] \<Rightarrow> (Some (TypeError (''unhashable type: '' @ squote ''dict'')), d)
      | Inr [k, v] \<Rightarrow> (Some Unmodelled, d)
      | Inr xs \<Rightarrow>
          (Some (ValueError (''dictionary update sequence element #'' @ show_nat i
                   @ '' has length '' @ show_nat (length xs) @ ''; 2 is required'')), d))"

definition py_update :: "dict \<Rightarrow> json \<Rightarrow> py_exception option \<times> dict" where
  "py_update d v =
     (case v of
        JObj kvs \<Rightarrow> (None, dict_merge d kvs)
      | _ \<Rightarrow> (case py_iter v of
                Inl e \<Rightarrow> (Some e, d)
              | Inr items \<Rightarrow> update_pairs 0 items d))"

text \<open>
  \<^verbatim>\<open>k in v\<close> for a string \<open>k\<close>: a key of a dictionary, an item of a list, a part of a
  string.
\<close>

fun py_contains_str :: "string \<Rightarrow> json \<Rightarrow> py_exception + bool" where
  "py_contains_str k (JObj d) = Inr (dict_has k d)"
| "py_contains_str k (JArr xs) = Inr (JStr k \<in> set xs)"
| "py_contains_str k (JStr s) = Inr (str_contains k s)"
| "py_contains_str k v =
     Inl (TypeError (''argument of type '' @ squote (type_name v) @ '' is not iterable''))"

text \<open>
  \<^verbatim>\<open>
  def display_chat_history():
      for chat in st.session_state.chat_history:
          sender, message = chat["sender"], chat["message"]
          st.markdown(f"**{sender}:** {message}")
  \<close>
\<close>

definition display_chat_history :: "run \<Rightarrow> run" where
  "display_chat_history r =
     r\<lparr>screen := screen r @
          map (\<lambda>(sender, message). Markdown (''**'' @ sender @ '':** '' @ message))
            (chat_history (session r))\<rparr>"

text \<open>
  \<^verbatim>\<open>
  if st.button("Generate Proposal"):
      if user_input.strip():
          with st.spinner("Generating proposal..."):
              response = generate_proposal(user_input)
              if "error" in response:
                  st.error(f"Error: {response['error']}")
              else:
                  st.session_state.response = response
  \<close>
  An error message is kept as its fixed text and the object formatted after it.
\<close>

definition generate_step :: "env \<Rightarrow> step" where
  "generate_step ui r =
     (if button ui ''Generate Proposal'' \<and> py_strip (text_area ui) \<noteq> [] then
        (let draft = generate_proposal (proposal_reply ui)
         in case py_contains_str ''error'' draft of
              Inl e \<Rightarrow> (Some e, r)
            | Inr True \<Rightarrow>
                (case subscript_str draft ''error'' of
                   Inl e \<Rightarrow> (Some e, r)
                 | Inr msg \<Rightarrow> (None, render (Error ''Error: '' msg) r))
            | Inr False \<Rightarrow> (None, on_session (\<lambda>s. s\<lparr>response := draft\<rparr>) r))
      else (None, r))"

text \<open>
  \<^verbatim>\<open>
  analysis_result = analyze_details_with_bedrock(user_input, response)
  if analysis_result.get("error"):
      st.error(f"Error in analysis: {analysis_result['error']}")
  else:
      provided_details = analysis_result.get("provided_details", {})
      st.session_state.missing_keys = analysis_result.get("missing_details", [])
      st.session_state.collected_details.update(provided_details)
      if st.session_state.missing_keys:
          collect_missing_details_interactive(st.session_state.missing_keys)
  \<close>
\<close>

definition analysis_step :: "env \<Rightarrow> step" where
  "analysis_step ui r =
     (let analysis_result = analyze_details_with_bedrock (analysis_reply ui)
      in case py_get analysis_result ''error'' JNull of
           Inl e \<Rightarrow> (Some e, r)
         | Inr err \<Rightarrow>
             if py_truthy err then (None, render (Error ''Error in analysis: '' err) r)
             else
               (case and_then (py_get analysis_result ''provided_details'' (JObj []))
                       (\<lambda>provided_details.
                     and_then (py_get analysis_result ''missing_details'' (JArr []))
                       (\<lambda>missing. Inr (provided_details, missing))) of
                  Inl e \<Rightarrow> (Some e, r)
                | Inr (provided_details, missing) \<Rightarrow>
                    let r1 = on_session (\<lambda>s. s\<lparr>missing_keys := missing\<rparr>) r
                    in (case py_update (collected_details (session r1)) provided_details of
                          (Some e, details) \<Rightarrow>
                            (Some e, on_session (\<lambda>s. s\<lparr>collected_details := details\<rparr>) r1)
                        | (None, details) \<Rightarrow>
                            let r2 = on_session (\<lambda>s. s\<lparr>collected_details := details\<rparr>) r1
                            in if py_truthy (missing_keys (session r2))
                               then collect_missing_details_interactive ui
                                      (missing_keys (session r2)) r2
                               else (None, r2))))"

text \<open>
  \<^verbatim>\<open>
  if st.session_state.response:
      response = st.session_state.response
      if is_tax_related(user_input):
          with st.spinner(...):
              ...
      else:
          st.success("This proposal is not related to tax. Here's your response:")
          st.session_state.final_response = response
          st.session_state.show_final_response = True
  \<close>
\<close>

definition not_tax_message :: string where
  "not_tax_message =
     ''This proposal is not related to tax. Here'' @ CHR 0x27 # ''s your response:''"

definition proposal_step :: "env \<Rightarrow> step" where
  "proposal_step ui r =
     (if py_truthy (response (session r)) then
        (if is_tax_related (text_area ui) then analysis_step ui r
         else
           (None,
            on_session
              (\<lambda>s. s\<lparr>final_response := response s, show_final_response := True\<rparr>)
              (render (Success not_tax_message) r)))
      else (None, r))"

text \<open>
  \<^verbatim>\<open>
  if st.session_state.show_final_response:
      st.subheader("Final Combined Response")
      st.json(st.session_state.final_response)
  \<close>
\<close>

definition final_display :: "run \<Rightarrow> run" where
  "final_display r =
     (if show_final_response (session r)
      then render (Json (final_response (session r)))
             (render (Subheader ''Final Combined Response'') r)
      else r)"

text \<open>
  One run of the script on the session state \<open>s\<close>: the chat history, the button
  \<^verbatim>\<open>Generate Proposal\<close>, the draft or the collection of details, the final panel.
  An exception ends the run where it is raised and leaves the session as it is then.
\<close>

definition run_script :: "env \<Rightarrow> session_state \<Rightarrow> py_exception option \<times> run" where
  "run_script ui s =
     (let r0 = display_chat_history \<lparr>session = s, screen = []\<rparr>
      in case generate_step ui r0 of
           (Some e, r1) \<Rightarrow> (Some e, r1)
         | (None, r1) \<Rightarrow>
             (case proposal_step ui r1 of
                (Some e, r2) \<Rightarrow> (Some e, r2)
              | (None, r2) \<Rightarrow> (None, final_display r2)))"

section \<open>Concrete replies and runs\<close>

text \<open>
  The body of a reply of the service whose first content block holds \<open>text\<close>: the
  text as a JSON string (quotes and backslashes escaped) inside the message object.
\<close>

definition quote_json :: "string \<Rightarrow> string" where
  "quote_json s =
     CHR 0x22 #
     concat (map (\<lambda>c. if c = CHR 0x22 \<or> c = CHR 0x5C then [CHR 0x5C, c] else [c]) s)
     @ [CHR 0x22]"

definition bedrock_body :: "string \<Rightarrow> string" where
  "bedrock_body text =
     ''{\"content\":[{\"type\":\"text\",\"text\":'' @ quote_json text @ ''}]}''"

text \<open>
  A run in which no button is pressed, no question is answered, the inputs of the
  review hold the strings they started with, and the service is silent.
\<close>

definition idle :: env where
  "idle =
     \<lparr> text_area = [], button = (\<lambda>key. False), text_input = (\<lambda>key. []),
       edit_input = (\<lambda>key v. case v of JStr s \<Rightarrow> Some s | _ \<Rightarrow> None),
       proposal_reply = Inr [], analysis_reply = Inr [],
       confirm_analysis_reply = Inr [], confirm_proposal_reply = Inr [] \<rparr>"

section \<open>Facts about dictionaries\<close>

lemma dict_get_dict_set:
  "dict_get k' (dict_set k v d) = (if k' = k then Some v else dict_get k' d)"
  by (induction d) (auto simp: dict_get_def)

lemma keys_dict_set:
  "map fst (dict_set k v d) = (if k \<in> set (map fst d) then map fst d else map fst d @ [k])"
proof (induction d)
  case Nil
  show ?case by simp
next
  case (Cons kv d)
  obtain k' v' where kv: "kv = (k', v')" by (cases kv)
  show ?case
  proof (cases "k' = k")
    case True
    with kv show ?thesis by simp
  next
    case False
    with kv Cons show ?thesis by simp
  qed
qed

lemma dict_has_dict_set:
  "dict_has k' (dict_set k v d) = (k' = k \<or> dict_has k' d)"
  unfolding dict_has_def keys_dict_set by auto

section \<open>The response combiner keeps the model's own details\<close>

text \<open>
  Claim C1, as the code has it. For a model response that is a dictionary whose entry
  \<^verbatim>\<open>provided_details\<close> is absent or a dictionary, \<^verbatim>\<open>combine_responses\<close> returns
  the model response with \<^verbatim>\<open>provided_details\<close> set to the response's own entry (the
  empty dictionary when it is absent): the entry of the result is that value, every
  other key has the value it has in the model response, and the result is the same
  for any two dictionaries of collected details.
\<close>

theorem combine_responses_keeps_model_details:
  assumes "\<forall>v. dict_get ''provided_details'' m = Some v \<longrightarrow> (\<exists>pd. v = JObj pd)"
  shows "combine_responses (JObj m) collected =
           Inr (JObj (dict_set ''provided_details''
                  (case dict_get ''provided_details'' m of None \<Rightarrow> JObj [] | Some v \<Rightarrow> v) m))
       \<and> (\<forall>result. combine_responses (JObj m) collected = Inr (JObj result) \<longrightarrow>
             dict_get ''provided_details'' result =
               Some (case dict_get ''provided_details'' m of None \<Rightarrow> JObj [] | Some v \<Rightarrow> v)
           \<and> (\<forall>k. k \<noteq> ''provided_details'' \<longrightarrow> dict_get k result = dict_get k m))
       \<and> combine_responses (JObj m) collected = combine_responses (JObj m) other"
proof (cases "dict_get ''provided_details'' m")
  case None
  then show ?thesis
    by (auto simp: combine_responses_def dict_get_dict_set)
next
  case (Some v)
  with assms obtain pd where "v = JObj pd" by blast
  with Some show ?thesis
    by (auto simp: combine_responses_def dict_get_dict_set)
qed

text \<open>
  The theorem at a draft with details of its own and at a draft without the entry:
  the collected industry is in neither result.
\<close>

theorem combine_responses_keeps_model_details_witness:
  "combine_responses
     (JObj [(''Required Software'', JStr ''Xero''),
            (''provided_details'', JObj [(''Industry'', JStr ''Retail'')])])
     [(''Industry'', JStr ''Consulting'')] =
   Inr (JObj [(''Required Software'', JStr ''Xero''),
              (''provided_details'', JObj [(''Industry'', JStr ''Retail'')])])
   \<and> combine_responses (JObj [(''Required Software'', JStr ''Xero'')])
       [(''Industry'', JStr ''Consulting'')] =
     Inr (JObj [(''Required Software'', JStr ''Xero''), (''provided_details'', JObj [])])"
  using combine_responses_keeps_model_details
          [of "[(''Required Software'', JStr ''Xero''),
                (''provided_details'', JObj [(''Industry'', JStr ''Retail'')])]"
              "[(''Industry'', JStr ''Consulting'')]" "[]"]
        combine_responses_keeps_model_details
          [of "[(''Required Software'', JStr ''Xero'')]"
              "[(''Industry'', JStr ''Consulting'')]" "[]"]
  by (simp add: dict_get_def)

text \<open>
  The claim as the spec states it, for every dictionary, fails where the entry is not
  a dictionary: \<^verbatim>\<open>{**"Not Mentioned"}\<close> raises a \<^verbatim>\<open>TypeError\<close>.
\<close>

theorem combine_responses_counterexample:
  "combine_responses
     (JObj [(''Proposal Description'', JStr ''Bookkeeping''),
            (''provided_details'', JStr ''Not Mentioned'')]) [] =
   Inl (TypeError (squote ''str'' @ '' object is not a mapping''))"
  by (simp add: combine_responses_def dict_get_def)

section \<open>The chat log\<close>

lemma bot_messages_log_chat:
  "bot_messages (log_chat sender m s) =
     (if sender = ''Bot'' \<and> m \<notin> asked_questions s then bot_messages s @ [m]
      else bot_messages s)"
  by (simp add: log_chat_def bot_messages_def Let_def)

lemma asked_questions_log_chat:
  "asked_questions (log_chat sender m s) =
     (if sender = ''Bot'' then insert m (asked_questions s) else asked_questions s)"
  by (auto simp: log_chat_def Let_def)

lemma log_chat_keeps_invariant:
  assumes "asked_questions s = set (bot_messages s)" and "distinct (bot_messages s)"
  shows "asked_questions (log_chat sender m s) = set (bot_messages (log_chat sender m s))"
    and "distinct (bot_messages (log_chat sender m s))"
  using assms by (auto simp: bot_messages_log_chat asked_questions_log_chat)

lemma log_all_keeps_invariant:
  assumes "asked_questions s = set (bot_messages s)" and "distinct (bot_messages s)"
  shows "asked_questions (log_all calls s) = set (bot_messages (log_all calls s))
       \<and> distinct (bot_messages (log_all calls s))"
  using assms
proof (induction calls arbitrary: s)
  case Nil
  then show ?case by (simp add: log_all_def)
next
  case (Cons call calls)
  obtain sender m where call: "call = (sender, m)" by (cases call)
  have step: "log_all (call # calls) s = log_all calls (log_chat sender m s)"
    by (simp add: log_all_def call)
  show ?case
    unfolding step
    by (rule Cons.IH) (use Cons.prems in \<open>simp_all add: log_chat_keeps_invariant\<close>)
qed

lemma initial_state_invariant:
  "asked_questions initial_state = set (bot_messages initial_state)"
  "distinct (bot_messages initial_state)"
  by (simp_all add: initial_state_def bot_messages_def)

text \<open>
  Claim C5. After any sequence of calls of \<^verbatim>\<open>log_chat\<close> from the empty session state
  the messages of the transcript's \<^verbatim>\<open>"Bot"\<close> entries are pairwise different. A call
  \<^verbatim>\<open>log_chat("Bot", m)\<close> with \<open>m\<close> already asked changes nothing; with \<open>m\<close> not yet
  asked it appends the entry and adds \<open>m\<close> to the asked questions.
\<close>

theorem bot_messages_never_repeat:
  "distinct (bot_messages (log_all calls initial_state))
   \<and> (m \<in> asked_questions s \<longrightarrow> log_chat ''Bot'' m s = s)
   \<and> (m \<notin> asked_questions s \<longrightarrow>
        log_chat ''Bot'' m s =
          s\<lparr>chat_history := chat_history s @ [(''Bot'', m)],
            asked_questions := insert m (asked_questions s)\<rparr>)"
  using log_all_keeps_invariant [OF initial_state_invariant, of calls]
  by (simp add: log_chat_def Let_def)

text \<open>
  The theorem where the bot says the same question twice around an answer, and then a
  new question.
\<close>

theorem bot_messages_never_repeat_witness:
  "distinct (bot_messages
     (log_all [(''Bot'', ''Which industry?''), (''User'', ''Retail''),
               (''Bot'', ''Which industry?'')] initial_state))
   \<and> log_chat ''Bot'' ''Which industry?'' (log_chat ''Bot'' ''Which industry?'' initial_state) =
       log_chat ''Bot'' ''Which industry?'' initial_state
   \<and> log_chat ''Bot'' ''Which year?'' (log_chat ''Bot'' ''Which industry?'' initial_state) =
       initial_state
         \<lparr>chat_history := [(''Bot'', ''Which industry?''), (''Bot'', ''Which year?'')],
          asked_questions := {''Which year?'', ''Which industry?''}\<rparr>"
  using bot_messages_never_repeat
          [of "[(''Bot'', ''Which industry?''), (''User'', ''Retail''),
                (''Bot'', ''Which industry?'')]"
              "''Which industry?''" "log_chat ''Bot'' ''Which industry?'' initial_state"]
        bot_messages_never_repeat
          [of "[]" "''Which year?''" "log_chat ''Bot'' ''Which industry?'' initial_state"]
  by (simp add: asked_questions_log_chat) (simp add: log_chat_def initial_state_def)

text \<open>
  Claim C10. A call \<^verbatim>\<open>log_chat(sender, m)\<close> whose sender is not \<^verbatim>\<open>"Bot"\<close> appends the
  entry whatever the transcript holds, so the same call twice leaves the entry twice,
  and it leaves the asked questions as they are. After any sequence of calls from
  the empty session state the asked questions are the texts of the \<^verbatim>\<open>"Bot"\<close>
  entries, and of no other entry.
\<close>

theorem other_senders_always_logged:
  "(sender \<noteq> ''Bot'' \<longrightarrow>
      log_chat sender m s = s\<lparr>chat_history := chat_history s @ [(sender, m)]\<rparr>
    \<and> chat_history (log_chat sender m (log_chat sender m s)) =
        chat_history s @ [(sender, m), (sender, m)]
    \<and> asked_questions (log_chat sender m s) = asked_questions s)
   \<and> asked_questions (log_all calls initial_state) =
       set (bot_messages (log_all calls initial_state))"
  using log_all_keeps_invariant [OF initial_state_invariant, of calls]
  by (simp add: log_chat_def Let_def)

text \<open>The theorem at the same answer of the user given twice after a question.\<close>

theorem other_senders_always_logged_witness:
  "log_chat ''User'' ''Retail'' (log_chat ''User'' ''Retail'' (log_chat ''Bot'' ''Which industry?'' initial_state)) =
     initial_state
       \<lparr>chat_history := [(''Bot'', ''Which industry?''), (''User'', ''Retail''), (''User'', ''Retail'')],
        asked_questions := {''Which industry?''}\<rparr>
   \<and> asked_questions
       (log_all [(''Bot'', ''Which industry?''), (''User'', ''Retail''), (''User'', ''Retail'')]
          initial_state) = {''Which industry?''}"
  using other_senders_always_logged
          [of "''User''" "''Retail''" "log_chat ''Bot'' ''Which industry?'' initial_state"
              "[(''Bot'', ''Which industry?''), (''User'', ''Retail''), (''User'', ''Retail'')]"]
        other_senders_always_logged
          [of "''User''" "''Retail''"
              "log_chat ''User'' ''Retail'' (log_chat ''Bot'' ''Which industry?'' initial_state)"
              "[]"]
  by (simp add: log_all_def bot_messages_def) (simp add: log_chat_def initial_state_def)

section \<open>The relevance classifier and the branch it guards\<close>

lemma starts_with_iff: "starts_with p s \<longleftrightarrow> (\<exists>suf. s = p @ suf)"
  by (induction p s rule: starts_with.induct) auto

lemma str_contains_iff: "str_contains needle s \<longleftrightarrow> (\<exists>pre suf. s = pre @ needle @ suf)"
proof (induction s)
  case Nil
  show ?case by auto
next
  case (Cons c cs)
  show ?case
  proof
    assume "str_contains needle (c # cs)"
    then consider "starts_with needle (c # cs)" | "str_contains needle cs" by auto
    then show "\<exists>pre suf. c # cs = pre @ needle @ suf"
    proof cases
      case 1
      then obtain suf where "c # cs = needle @ suf" by (auto simp: starts_with_iff)
      then have "c # cs = [] @ needle @ suf" by simp
      then show ?thesis by blast
    next
      case 2
      with Cons obtain pre suf where "cs = pre @ needle @ suf" by blast
      then have "c # cs = (c # pre) @ needle @ suf" by simp
      then show ?thesis by blast
    qed
  next
    assume "\<exists>pre suf. c # cs = pre @ needle @ suf"
    then obtain pre suf where eq: "c # cs = pre @ needle @ suf" by blast
    show "str_contains needle (c # cs)"
    proof (cases pre)
      case Nil
      with eq have "starts_with needle (c # cs)" by (auto simp: starts_with_iff)
      then show ?thesis by simp
    next
      case (Cons p pre')
      with eq have "cs = pre' @ needle @ suf" by simp
      with Cons.IH show ?thesis by auto
    qed
  qed
qed
lemma proposal_step_not_tax:
  assumes "\<not> is_tax_related (text_area ui)"
  shows "proposal_step ui r =
           (None,
            if py_truthy (response (session r))
            then \<lparr>session = (session r)\<lparr>final_response := response (session r),
                                          show_final_response := True\<rparr>,
                  screen = screen r @ [Success not_tax_message]\<rparr>
            else r)"
  using assms by (simp add: proposal_step_def on_session_def render_def)

lemma generate_step_stores_draft:
  assumes "button ui ''Generate Proposal''" and "py_strip (text_area ui) \<noteq> []"
    and "py_contains_str ''error'' (generate_proposal (proposal_reply ui)) = Inr False"
  shows "generate_step ui r =
           (None, r\<lparr>session := (session r)\<lparr>response := generate_proposal (proposal_reply ui)\<rparr>\<rparr>)"
  using assms by (simp add: generate_step_def on_session_def Let_def)

text \<open>
  Claim C9, as the code has it. \<^verbatim>\<open>is_tax_related(text)\<close> holds exactly when the
  lower-cased text has one of the four keywords as a substring. Lower-casing works
  character by character and keeps the length: it maps \<open>A\<close> to \<open>Z\<close> to \<open>a\<close> to \<open>z\<close> and
  the capital letters of Latin-1 to their small letters, and it keeps the small
  letters, the digits, the space, the signs next to the letters, the multiplication
  sign and the sharp s. The classifier is false for the text about payroll. When it is false for the text of the text area, the step that follows
  \<^verbatim>\<open>Generate Proposal\<close> never enters the collection of details: it does not depend on
  anything the collection would read (the reply of the analysis, the buttons and the
  inputs), and on a stored draft that is not empty it stores the draft as final
  response, sets the display flag and leaves the chat, the collected details and the
  missing keys alone; on an empty draft it does nothing. In a run where
  \<^verbatim>\<open>Generate Proposal\<close> is pressed and \<^verbatim>\<open>generate_proposal\<close> returns a draft that
  is not empty and holds no \<^verbatim>\<open>error\<close>, the final response of the session is that
  draft.
\<close>

theorem is_tax_related_gates_collection:
  "(is_tax_related text \<longleftrightarrow>
      (\<exists>keyword \<in> {''tax'', ''filing'', ''tax preparation'', ''tax filing''}.
         \<exists>pre suf. py_lower text = pre @ keyword @ suf))
   \<and> py_lower ''ABCDEFGHIJKLMNOPQRSTUVWXYZ'' = ''abcdefghijklmnopqrstuvwxyz''
   \<and> py_lower ''abcdefghijklmnopqrstuvwxyz 0123456789@[`{'' =
       ''abcdefghijklmnopqrstuvwxyz 0123456789@[`{''
   \<and> py_lower [CHR 0xC0, CHR 0xD6, CHR 0xD7, CHR 0xD8, CHR 0xDE, CHR 0xDF, CHR 0xFF] =
       [CHR 0xE0, CHR 0xF6, CHR 0xD7, CHR 0xF8, CHR 0xFE, CHR 0xDF, CHR 0xFF]
   \<and> length (py_lower text) = length text
   \<and> (\<forall>i < length text. py_lower text ! i = lower_char (text ! i))
   \<and> \<not> is_tax_related ''We need help with payroll only''
   \<and> (\<not> is_tax_related (text_area ui) \<longrightarrow>
        proposal_step ui r =
          (None,
           if py_truthy (response (session r))
           then \<lparr>session = (session r)\<lparr>final_response := response (session r),
                                         show_final_response := True\<rparr>,
                 screen = screen r @ [Success not_tax_message]\<rparr>
           else r)
        \<and> (\<forall>other::env. text_area other = text_area ui \<longrightarrow>
               proposal_step other r = proposal_step ui r))
   \<and> (\<not> is_tax_related (text_area ui) \<and> button ui ''Generate Proposal''
        \<and> py_strip (text_area ui) \<noteq> []
        \<and> py_contains_str ''error'' (generate_proposal (proposal_reply ui)) = Inr False
        \<and> py_truthy (generate_proposal (proposal_reply ui)) \<longrightarrow>
        fst (run_script ui s) = None
        \<and> session (snd (run_script ui s)) =
            s\<lparr>response := generate_proposal (proposal_reply ui),
              final_response := generate_proposal (proposal_reply ui),
              show_final_response := True\<rparr>)"
proof (intro conjI impI allI)
  show "is_tax_related text \<longleftrightarrow>
      (\<exists>keyword \<in> {''tax'', ''filing'', ''tax preparation'', ''tax filing''}.
         \<exists>pre suf. py_lower text = pre @ keyword @ suf)"
    by (simp add: is_tax_related_def TAX_KEYWORDS_def str_contains_iff)
next
  show "py_lower ''ABCDEFGHIJKLMNOPQRSTUVWXYZ'' = ''abcdefghijklmnopqrstuvwxyz''"
    by (simp add: py_lower_def lower_char_def char_of_def bit_iff_odd)
next
  show "py_lower ''abcdefghijklmnopqrstuvwxyz 0123456789@[`{'' =
       ''abcdefghijklmnopqrstuvwxyz 0123456789@[`{''"
    by (simp add: py_lower_def lower_char_def)
next
  show "py_lower [CHR 0xC0, CHR 0xD6, CHR 0xD7, CHR 0xD8, CHR 0xDE, CHR 0xDF, CHR 0xFF] =
       [CHR 0xE0, CHR 0xF6, CHR 0xD7, CHR 0xF8, CHR 0xFE, CHR 0xDF, CHR 0xFF]"
    by (simp add: py_lower_def lower_char_def char_of_def bit_iff_odd)
next
  show "length (py_lower text) = length text"
    by (simp add: py_lower_def)
next
  fix i
  assume "i < length text"
  then show "py_lower text ! i = lower_char (text ! i)"
    by (simp add: py_lower_def)
next
  show "\<not> is_tax_related ''We need help with payroll only''"
    by (simp add: is_tax_related_def TAX_KEYWORDS_def py_lower_def lower_char_def)
next
  assume "\<not> is_tax_related (text_area ui)"
  then show "proposal_step ui r =
          (None,
           if py_truthy (response (session r))
           then \<lparr>session = (session r)\<lparr>final_response := response (session r),
                                         show_final_response := True\<rparr>,
                 screen = screen r @ [Success not_tax_message]\<rparr>
           else r)"
    by (rule proposal_step_not_tax)
next
  fix other :: env
  assume "\<not> is_tax_related (text_area ui)" and "text_area other = text_area ui"
  then show "proposal_step other r = proposal_step ui r"
    by (simp add: proposal_step_not_tax)
next
  assume a: "\<not> is_tax_related (text_area ui) \<and> button ui ''Generate Proposal''
        \<and> py_strip (text_area ui) \<noteq> []
        \<and> py_contains_str ''error'' (generate_proposal (proposal_reply ui)) = Inr False
        \<and> py_truthy (generate_proposal (proposal_reply ui))"
  then have g: "generate_step ui (display_chat_history \<lparr>session = s, screen = []\<rparr>) =
      (None, (display_chat_history \<lparr>session = s, screen = []\<rparr>)
         \<lparr>session := s\<lparr>response := generate_proposal (proposal_reply ui)\<rparr>\<rparr>)"
    by (simp add: generate_step_stores_draft display_chat_history_def)
  from a show "fst (run_script ui s) = None"
    by (simp add: run_script_def g proposal_step_not_tax)
  from a show "session (snd (run_script ui s)) =
            s\<lparr>response := generate_proposal (proposal_reply ui),
              final_response := generate_proposal (proposal_reply ui),
              show_final_response := True\<rparr>"
    by (simp add: run_script_def g proposal_step_not_tax final_display_def render_def)
qed

lemma payroll_draft:
  "generate_proposal (Inr (bedrock_body ''{\"Proposal Description\":\"Payroll support\"}'')) =
     JObj [(''Proposal Description'', JStr ''Payroll support'')]"
  by code_simp

lemma empty_draft: "generate_proposal (Inr (bedrock_body ''{}'')) = JObj []"
  by code_simp

lemma payroll_text_is_not_blank: "py_strip ''We need help with payroll only'' \<noteq> []"
  by (simp add: py_strip_def is_space_def)

text \<open>
  The theorem at a text in capitals, which is classified by its lower-cased form, and
  at the request about payroll with a draft that the service returns: the run ends
  with the draft as final response, and nothing was asked.
\<close>

theorem is_tax_related_gates_collection_witness:
  "is_tax_related ''Please prepare our TAX FILING''
   \<and> py_lower ''Please prepare our TAX FILING'' = ''please prepare our tax filing''
   \<and> \<not> is_tax_related ''We need help with payroll only''
   \<and> fst (run_script
        (idle\<lparr>text_area := ''We need help with payroll only'',
              button := (\<lambda>key. key = ''Generate Proposal''),
              proposal_reply :=
                Inr (bedrock_body ''{\"Proposal Description\":\"Payroll support\"}'')\<rparr>)
        initial_state) = None
   \<and> session (snd (run_script
        (idle\<lparr>text_area := ''We need help with payroll only'',
              button := (\<lambda>key. key = ''Generate Proposal''),
              proposal_reply :=
                Inr (bedrock_body ''{\"Proposal Description\":\"Payroll support\"}'')\<rparr>)
        initial_state)) =
      initial_state
        \<lparr>response := JObj [(''Proposal Description'', JStr ''Payroll support'')],
         final_response := JObj [(''Proposal Description'', JStr ''Payroll support'')],
         show_final_response := True\<rparr>"
proof -
  note inst =
    is_tax_related_gates_collection
      [of "''We need help with payroll only''"
          "idle\<lparr>text_area := ''We need help with payroll only'',
                button := (\<lambda>key. key = ''Generate Proposal''),
                proposal_reply :=
                  Inr (bedrock_body ''{\"Proposal Description\":\"Payroll support\"}'')\<rparr>"
          "\<lparr>session = initial_state, screen = []\<rparr>" initial_state]
  have lowered: "py_lower ''Please prepare our TAX FILING'' = ''please prepare our tax filing''"
    by (simp add: py_lower_def lower_char_def char_of_def bit_iff_odd)
  have "''please prepare our tax filing'' = ''please prepare our '' @ ''tax'' @ '' filing''"
    by simp
  then have capitals: "is_tax_related ''Please prepare our TAX FILING''"
    using is_tax_related_gates_collection
            [of "''Please prepare our TAX FILING''", THEN conjunct1]
    unfolding lowered by blast
  show ?thesis
    using capitals lowered
          inst [THEN conjunct2, THEN conjunct2, THEN conjunct2, THEN conjunct2, THEN conjunct2,
                THEN conjunct2, THEN conjunct1]
          inst [THEN conjunct2, THEN conjunct2, THEN conjunct2, THEN conjunct2, THEN conjunct2,
                THEN conjunct2, THEN conjunct2, THEN conjunct2]
    by (simp add: payroll_draft payroll_text_is_not_blank dict_has_def)
qed

text \<open>
  The claim as the spec states it, for every text that is not about tax, fails where
  the service returns the empty object \<^verbatim>\<open>{}\<close> as draft: the draft holds no
  \<^verbatim>\<open>error\<close> and is stored as the response, the condition \<^verbatim>\<open>if
  st.session_state.response:\<close> is false for it, and the final response stays \<^verbatim>\<open>None\<close>.
\<close>

theorem empty_draft_counterexample:
  "\<not> is_tax_related ''We need help with payroll only''
   \<and> generate_proposal (Inr (bedrock_body ''{}'')) = JObj []
   \<and> run_script
        (idle\<lparr>text_area := ''We need help with payroll only'',
              button := (\<lambda>key. key = ''Generate Proposal''),
              proposal_reply := Inr (bedrock_body ''{}'')\<rparr>)
        initial_state =
       (None, \<lparr>session = initial_state\<lparr>response := JObj []\<rparr>, screen = []\<rparr>)
   \<and> final_response (initial_state\<lparr>response := JObj []\<rparr>) = JNull"
  by (simp add: empty_draft payroll_text_is_not_blank is_tax_related_def TAX_KEYWORDS_def
      py_lower_def lower_char_def run_script_def display_chat_history_def generate_step_def
      proposal_step_def final_display_def on_session_def dict_has_def initial_state_def)

section \<open>The decoder does not run out of fuel\<close>

lemma skip_ws_length: "length (skip_ws s) \<le> length s"
  by (simp add: skip_ws_def length_dropWhile_le)

lemma skip_ws_Cons: "skip_ws s = d # r \<Longrightarrow> length r < length s"
  using skip_ws_length [of s] by simp

lemma scanstring_rest:
  "scanstring b acc s = Inr (x, r) \<Longrightarrow> length r < length s"
proof (induction b acc s arbitrary: x r rule: scanstring.induct)
  case (1 b acc)
  then show ?case by simp
next
  case (2 b acc c)
  then show ?case by (simp split: if_splits)
next
  case (3 b acc c e r')
  show ?case
  proof (cases "c = CHR 0x22")
    case True
    with 3 show ?thesis by simp
  next
    case notq: False
    show ?thesis
    proof (cases "c = CHR 0x5C")
      case False
      with notq 3 show ?thesis by (fastforce split: if_splits)
    next
      case bs: True
      show ?thesis
      proof (cases "e = CHR ''u''")
        case True
        with notq bs "3.prems" "3.IH"(1) show ?thesis
          by (fastforce split: if_splits option.splits)
      next
        case False
        with notq bs "3.prems" "3.IH"(2) show ?thesis
          by (fastforce split: if_splits option.splits)
      qed
    qed
  qed
qed

lemma scanstring_no_depth: "scanstring b acc s \<noteq> Inl Depth"
proof (induction b acc s rule: scanstring.induct)
  case (1 b acc)
  then show ?case by simp
next
  case (2 b acc c)
  then show ?case by simp
next
  case (3 b acc c e r')
  show ?case
  proof (cases "c = CHR 0x22")
    case True
    then show ?thesis by simp
  next
    case notq: False
    show ?thesis
    proof (cases "c = CHR 0x5C")
      case False
      with notq 3 show ?thesis by simp
    next
      case bs: True
      show ?thesis
      proof (cases "e = CHR ''u''")
        case True
        with notq bs "3.IH"(1) show ?thesis
          by (simp split: option.splits)
      next
        case False
        with notq bs "3.IH"(2) show ?thesis
          by (simp split: option.splits)
      qed
    qed
  qed
qed

lemma within_fuel_scanstring: "within_fuel (scanstring b acc s) s"
proof (cases "scanstring b acc s")
  case (Inl e)
  with scanstring_no_depth [of b acc s] show ?thesis
    by (cases e) (simp_all add: within_fuel_def)
next
  case (Inr p)
  obtain x r where "p = (x, r)" by (cases p)
  with Inr scanstring_rest [of b acc s x r] show ?thesis
    by (simp add: within_fuel_def)
qed

lemma integer_part_prefix: "integer_part s \<noteq> [] \<Longrightarrow> s \<noteq> []"
  by (auto simp: integer_part_def)

lemma match_number_rest:
  assumes "match_number s = Some (Inr (v, r))"
  shows "length r < length s"
proof -
  let ?s1 = "if starts_with ''-'' s then tl s else s"
  let ?r1 = "drop (length (integer_part ?s1)) ?s1"
  let ?r2 = "drop (length (fraction_part ?r1)) ?r1"
  from assms have ne: "integer_part ?s1 \<noteq> []"
    by (auto simp: match_number_def Let_def split: if_splits)
  then have s1: "?s1 \<noteq> []" by (rule integer_part_prefix)
  from assms have r: "r = drop (length (exponent_part ?r2)) ?r2"
    by (auto simp: match_number_def Let_def split: if_splits)
  from ne s1 have "length ?r1 < length ?s1"
    by (cases "integer_part ?s1") auto
  moreover have "length ?s1 \<le> length s" by simp
  moreover have "length r \<le> length ?r1" unfolding r by simp
  ultimately show ?thesis by linarith
qed

lemma within_fuel_Decode [simp]: "within_fuel (Inl (Decode msg rest)) s"
  by (simp add: within_fuel_def)

lemma within_fuel_Inr [simp]: "within_fuel (Inr (v, r)) s \<longleftrightarrow> length r < length s"
  by (simp add: within_fuel_def)

lemma within_fuel_mono: "within_fuel x s' \<Longrightarrow> length s' \<le> length s \<Longrightarrow> within_fuel x s"
  by (auto simp: within_fuel_def split: sum.splits scan_error.splits)

text \<open>A step that scans a part \<open>s'\<close> of \<open>s\<close> and goes on with what the part left.\<close>

lemma within_fuel_then:
  assumes "within_fuel x s'" and "length s' \<le> length s"
    and "\<And>v r. x = Inr (v, r) \<Longrightarrow> length r < length s' \<Longrightarrow> within_fuel (f v r) s"
  shows "within_fuel (case x of Inl e \<Rightarrow> Inl e | Inr (v, r) \<Rightarrow> f v r) s"
proof (cases x)
  case (Inl e)
  with assms(1) show ?thesis
    by (cases e) (simp_all add: within_fuel_def)
next
  case (Inr p)
  obtain v r where p: "p = (v, r)" by (cases p)
  with Inr assms(1) have "length r < length s'" by simp
  with assms(3) [of v r] Inr p show ?thesis by simp
qed

lemma scan_once_value:
  assumes obj: "\<And>s'. 2 * length s' + 1 < n \<Longrightarrow> within_fuel (object_items n [] s') s'"
    and arr: "\<And>s'. 2 * length s' + 1 < n \<Longrightarrow> within_fuel (array_items n [] s') s'"
    and fuel: "2 * length s < Suc n"
  shows "within_fuel (scan_once (Suc n) s) s"
proof (cases s)
  case Nil
  then show ?thesis by simp
next
  case (Cons c r)
  with fuel have n: "2 * length r + 1 < n" by simp
  have str: "within_fuel (case scanstring (c # r) [] r of Inl e \<Rightarrow> Inl e
                | Inr (str, r1) \<Rightarrow> Inr (JStr str, r1)) (c # r)"
    by (rule within_fuel_then [OF within_fuel_scanstring]) simp_all
  have object: "within_fuel (case skip_ws r of [] \<Rightarrow> object_items n [] []
                | d # r1 \<Rightarrow> if d = CHR ''}'' then Inr (JObj [], r1)
                            else object_items n [] (d # r1)) (c # r)"
  proof (cases "skip_ws r")
    case Nil
    from obj [of "[]"] n show ?thesis
      unfolding Nil by (auto intro: within_fuel_mono)
  next
    case (Cons d r1)
    from skip_ws_length [of r] Cons have le: "length (d # r1) \<le> length r" by simp
    with n have "2 * length (d # r1) + 1 < n" by simp
    from obj [OF this] le show ?thesis
      unfolding Cons by (auto intro: within_fuel_mono)
  qed
  have array: "within_fuel (case skip_ws r of [] \<Rightarrow> array_items n [] []
                | d # r1 \<Rightarrow> if d = CHR '']'' then Inr (JArr [], r1)
                            else array_items n [] (d # r1)) (c # r)"
  proof (cases "skip_ws r")
    case Nil
    from arr [of "[]"] n show ?thesis
      unfolding Nil by (auto intro: within_fuel_mono)
  next
    case (Cons d r1)
    from skip_ws_length [of r] Cons have le: "length (d # r1) \<le> length r" by simp
    with n have "2 * length (d # r1) + 1 < n" by simp
    from arr [OF this] le show ?thesis
      unfolding Cons by (auto intro: within_fuel_mono)
  qed
  have number: "within_fuel (case match_number (c # r) of
                  None \<Rightarrow> Inl (Decode ''Expecting value'' (c # r))
                | Some scanned \<Rightarrow> scanned) (c # r)"
  proof (cases "match_number (c # r)")
    case None
    then show ?thesis by simp
  next
    case (Some scanned)
    show ?thesis
    proof (cases scanned)
      case (Inl e)
      with Some have "e \<noteq> Depth"
        by (auto simp: match_number_def Let_def split: if_splits)
      with Some Inl show ?thesis by (cases e) (simp_all add: within_fuel_def)
    next
      case (Inr p)
      obtain v r1 where "p = (v, r1)" by (cases p)
      with Some Inr match_number_rest [of "c # r" v r1] show ?thesis by simp
    qed
  qed
  show ?thesis
  proof (cases "c = CHR 0x22")
    case True
    with str show ?thesis unfolding Cons by simp
  next
    case no_quote: False
    show ?thesis
    proof (cases "c = CHR ''{''")
      case True
      with object show ?thesis unfolding Cons by simp
    next
      case no_brace: False
      show ?thesis
      proof (cases "c = CHR ''[''")
        case True
        with array show ?thesis unfolding Cons by simp
      next
        case False
        with no_quote no_brace number show ?thesis
          unfolding Cons by (auto simp del: starts_with.simps)
      qed
    qed
  qed
qed

lemma array_items_step:
  assumes val: "\<And>s'. 2 * length s' < n \<Longrightarrow> within_fuel (scan_once n s') s'"
    and arr: "\<And>acc' s'. 2 * length s' + 1 < n \<Longrightarrow> within_fuel (array_items n acc' s') s'"
    and fuel: "2 * length s + 1 < Suc n"
  shows "within_fuel (array_items (Suc n) acc s) s"
proof -
  from fuel have "2 * length s < n" by simp
  from val [OF this] have first: "within_fuel (scan_once n s) s" .
  have rest: "within_fuel
      (case skip_ws r1 of
         [] \<Rightarrow> Inl (Decode (''Expecting '' @ squote '','' @ '' delimiter'') [])
       | d # r2 \<Rightarrow>
           if d = CHR '']'' then Inr (JArr (acc @ [v]), r2)
           else if d = CHR '','' then array_items n (acc @ [v]) (skip_ws r2)
           else Inl (Decode (''Expecting '' @ squote '','' @ '' delimiter'') (d # r2))) s"
    if "length r1 < length s" for v r1
  proof (cases "skip_ws r1")
    case Nil
    then show ?thesis by simp
  next
    case (Cons d r2)
    from skip_ws_Cons [OF Cons] that have r2: "length r2 + 2 \<le> length s" by simp
    with skip_ws_length [of r2] fuel have "2 * length (skip_ws r2) + 1 < n" by simp
    from arr [OF this, of "acc @ [v]"] skip_ws_length [of r2] r2
    have "within_fuel (array_items n (acc @ [v]) (skip_ws r2)) s"
      by (auto intro: within_fuel_mono)
    with r2 show ?thesis unfolding Cons by simp
  qed
  show ?thesis
    unfolding array_items.simps
    by (rule within_fuel_then [OF first]) (simp_all add: rest)
qed

lemma object_items_step:
  assumes val: "\<And>s'. 2 * length s' < n \<Longrightarrow> within_fuel (scan_once n s') s'"
    and obj: "\<And>acc' s'. 2 * length s' + 1 < n \<Longrightarrow> within_fuel (object_items n acc' s') s'"
    and fuel: "2 * length s + 1 < Suc n"
  shows "within_fuel (object_items (Suc n) acc s) s"
proof (cases s)
  case Nil
  then show ?thesis by simp
next
  case (Cons q r)
  have after_value: "within_fuel
      (case skip_ws r3 of
         [] \<Rightarrow> Inl (Decode (''Expecting '' @ squote '','' @ '' delimiter'') [])
       | d # r4 \<Rightarrow>
           if d = CHR ''}'' then Inr (JObj (dict_set key v acc), r4)
           else if d = CHR '','' then object_items n (dict_set key v acc) (skip_ws r4)
           else Inl (Decode (''Expecting '' @ squote '','' @ '' delimiter'') (d # r4))) s"
    if "length r3 < length s" for key v r3
  proof (cases "skip_ws r3")
    case Nil
    then show ?thesis by simp
  next
    case (Cons d r4)
    from skip_ws_Cons [OF Cons] that have r4: "length r4 + 2 \<le> length s" by simp
    with skip_ws_length [of r4] fuel have "2 * length (skip_ws r4) + 1 < n" by simp
    from obj [OF this, of "dict_set key v acc"] skip_ws_length [of r4] r4
    have "within_fuel (object_items n (dict_set key v acc) (skip_ws r4)) s"
      by (auto intro: within_fuel_mono)
    with r4 show ?thesis unfolding Cons by simp
  qed
  have after_key: "within_fuel
      (case skip_ws r1 of
         [] \<Rightarrow> Inl (Decode (''Expecting '' @ squote '':'' @ '' delimiter'') [])
       | colon # r2 \<Rightarrow>
           if colon \<noteq> CHR '':'' then
             Inl (Decode (''Expecting '' @ squote '':'' @ '' delimiter'') (colon # r2))
           else
             (case scan_once n (skip_ws r2) of
                Inl e \<Rightarrow> Inl e
              | Inr (v, r3) \<Rightarrow>
                  (case skip_ws r3 of
                     [] \<Rightarrow> Inl (Decode (''Expecting '' @ squote '','' @ '' delimiter'') [])
                   | d # r4 \<Rightarrow>
                       if d = CHR ''}'' then Inr (JObj (dict_set key v acc), r4)
                       else if d = CHR '','' then
                         object_items n (dict_set key v acc) (skip_ws r4)
                       else Inl (Decode (''Expecting '' @ squote '','' @ '' delimiter'')
                                   (d # r4))))) s"
    if "length r1 < length r" for key r1
  proof (cases "skip_ws r1")
    case Nil
    then show ?thesis by simp
  next
    case (Cons colon r2)
    from skip_ws_Cons [OF Cons] that have r2: "length r2 + 1 < length r" by simp
    with skip_ws_length [of r2] have le: "length (skip_ws r2) \<le> length s"
      unfolding \<open>s = q # r\<close> by simp
    from r2 skip_ws_length [of r2] fuel have "2 * length (skip_ws r2) < n"
      unfolding \<open>s = q # r\<close> by simp
    from val [OF this] have v: "within_fuel (scan_once n (skip_ws r2)) (skip_ws r2)" .
    have "within_fuel
        (case scan_once n (skip_ws r2) of
           Inl e \<Rightarrow> Inl e
         | Inr (v, r3) \<Rightarrow>
             (case skip_ws r3 of
                [] \<Rightarrow> Inl (Decode (''Expecting '' @ squote '','' @ '' delimiter'') [])
              | d # r4 \<Rightarrow>
                  if d = CHR ''}'' then Inr (JObj (dict_set key v acc), r4)
                  else if d = CHR '','' then
                    object_items n (dict_set key v acc) (skip_ws r4)
                  else Inl (Decode (''Expecting '' @ squote '','' @ '' delimiter'')
                              (d # r4)))) s"
      by (rule within_fuel_then [OF v le]) (use le in \<open>simp add: after_value\<close>)
    then show ?thesis unfolding Cons by simp
  qed
  have key: "within_fuel (scanstring (q # r) [] r) r"
    by (rule within_fuel_scanstring)
  show ?thesis
  proof (cases "q = CHR 0x22")
    case False
    then show ?thesis unfolding Cons by simp
  next
    case True
    have "within_fuel
        (case scanstring (q # r) [] r of
           Inl e \<Rightarrow> Inl e
         | Inr (key, r1) \<Rightarrow>
             (case skip_ws r1 of
                [] \<Rightarrow> Inl (Decode (''Expecting '' @ squote '':'' @ '' delimiter'') [])
              | colon # r2 \<Rightarrow>
                  if colon \<noteq> CHR '':'' then
                    Inl (Decode (''Expecting '' @ squote '':'' @ '' delimiter'') (colon # r2))
                  else
                    (case scan_once n (skip_ws r2) of
                       Inl e \<Rightarrow> Inl e
                     | Inr (v, r3) \<Rightarrow>
                         (case skip_ws r3 of
                            [] \<Rightarrow> Inl (Decode (''Expecting '' @ squote '','' @ '' delimiter'') [])
                          | d # r4 \<Rightarrow>
                              if d = CHR ''}'' then Inr (JObj (dict_set key v acc), r4)
                              else if d = CHR '','' then
                                object_items n (dict_set key v acc) (skip_ws r4)
                              else Inl (Decode (''Expecting '' @ squote '','' @ '' delimiter'')
                                          (d # r4)))))) s"
      by (rule within_fuel_then [OF key]) (use after_key in \<open>simp_all add: Cons\<close>)
    with True show ?thesis unfolding Cons by simp
  qed
qed

lemma fuel_suffices:
  "(2 * length s < n \<longrightarrow> within_fuel (scan_once n s) s)
   \<and> (2 * length s + 1 < n \<longrightarrow> within_fuel (object_items n acc s) s)
   \<and> (2 * length s + 1 < n \<longrightarrow> within_fuel (array_items n items s) s)"
proof (induction n arbitrary: s acc items)
  case 0
  show ?case by simp
next
  case (Suc n)
  have val: "\<And>s'. 2 * length s' < n \<Longrightarrow> within_fuel (scan_once n s') s'"
    and obj: "\<And>acc' s'. 2 * length s' + 1 < n \<Longrightarrow> within_fuel (object_items n acc' s') s'"
    and arr: "\<And>acc' s'. 2 * length s' + 1 < n \<Longrightarrow> within_fuel (array_items n acc' s') s'"
    using Suc.IH by blast+
  show ?case
    using scan_once_value [of n s, OF obj arr]
      object_items_step [of n s acc, OF val obj]
      array_items_step [of n s items, OF val arr]
    by blast
qed

text \<open>
  \<^verbatim>\<open>json.loads\<close> of the model returns a value, a \<^verbatim>\<open>JSONDecodeError\<close> or the
  \<^verbatim>\<open>ValueError\<close> of an integer with too many digits.
\<close>

lemma json_loads_total:
  "(\<exists>v. json_loads doc = Inr v) \<or> (\<exists>msg. json_loads doc = Inl (JSONDecodeError msg))
   \<or> (\<exists>msg. json_loads doc = Inl (ValueError msg))"
proof -
  have "2 * length (skip_ws doc) < Suc (2 * length doc)"
    using skip_ws_length [of doc] by simp
  with fuel_suffices [of "skip_ws doc" "Suc (2 * length doc)"]
  have "within_fuel (scan_once (Suc (2 * length doc)) (skip_ws doc)) (skip_ws doc)"
    by blast
  then show ?thesis
    by (auto simp: json_loads_def within_fuel_def
        split: sum.splits scan_error.splits prod.splits list.splits)
qed

section \<open>What the two calls return\<close>

lemma object_items_returns_object:
  "object_items n acc s = Inr (v, r) \<Longrightarrow> \<exists>d. v = JObj d"
proof (induction n arbitrary: acc s v r)
  case 0
  then show ?case by simp
next
  case (Suc n)
  show ?case
  proof (cases s)
    case Nil
    with Suc.prems show ?thesis by simp
  next
    case (Cons q t)
    with Suc.prems Suc.IH show ?thesis
      by (auto split: if_splits sum.splits prod.splits list.splits)
  qed
qed

lemma scan_once_brace_returns_object:
  assumes "scan_once n (CHR ''{'' # t) = Inr (v, r)"
  shows "\<exists>d. v = JObj d"
proof (cases n)
  case 0
  with assms show ?thesis by simp
next
  case (Suc m)
  with assms object_items_returns_object [of m "[]" _ v r] show ?thesis
    by (auto split: list.splits if_splits)
qed

lemma find_char_drop: "find_char x s = Some i \<Longrightarrow> \<exists>t. drop i s = x # t"
proof (induction s arbitrary: i)
  case Nil
  then show ?case by simp
next
  case (Cons c cs)
  then show ?case by (auto split: if_splits)
qed

lemma json_loads_brace_returns_object:
  assumes "json_loads (CHR ''{'' # t) = Inr v"
  shows "\<exists>d. v = JObj d"
proof -
  have ws: "skip_ws (CHR ''{'' # t) = CHR ''{'' # t"
    by (simp add: skip_ws_def is_ws_def)
  from assms obtain r where
    "scan_once (Suc (2 * length (CHR ''{'' # t))) (CHR ''{'' # t) = Inr (v, r)"
    unfolding json_loads_def ws
    by (auto split: sum.splits scan_error.splits prod.splits list.splits)
  then show ?thesis by (rule scan_once_brace_returns_object)
qed

lemma analyze_handler_is_dict: "\<exists>d. analyze_handler e = JObj d"
  by (cases e) (simp_all add: analyze_handler_def error_response_def)

text \<open>
  \<^verbatim>\<open>analyze_details_with_bedrock\<close> returns a dictionary whatever the service does:
  the result of the decoder starts at a brace, and everything else is an error
  dictionary.
\<close>

lemma analyze_details_returns_dict: "\<exists>d. analyze_details_with_bedrock invoked = JObj d"
proof (cases invoked)
  case (Inl e)
  then show ?thesis
    by (simp add: analyze_details_with_bedrock_def analyze_handler_is_dict)
next
  case (Inr response_body)
  show ?thesis
  proof (cases "response_body = []")
    case True
    with Inr show ?thesis
      by (simp add: analyze_details_with_bedrock_def error_response_def)
  next
    case False
    let ?found = "and_then (json_loads response_body) (\<lambda>full_response.
                  and_then (py_get full_response ''content'' (JArr [])) (\<lambda>blocks.
                  and_then (subscript_zero blocks) (\<lambda>block.
                  and_then (py_get block ''text'' (JStr [])) (\<lambda>content.
                  py_find_brace content))))"
    show ?thesis
    proof (cases ?found)
      case (Inl e)
      with Inr False show ?thesis
        by (simp add: analyze_details_with_bedrock_def analyze_handler_is_dict)
    next
      case found: (Inr p)
      obtain content start where p: "p = (content, start)" by (cases p)
      show ?thesis
      proof (cases start)
        case None
        with Inr False found p show ?thesis
          by (simp add: analyze_details_with_bedrock_def error_response_def)
      next
        case (Some start_index)
        have "find_char (CHR ''{'') content = Some start_index"
          using found p Some
          by (auto simp: and_then_def split: sum.splits elim!: py_find_brace.elims)
        from find_char_drop [OF this] obtain t
          where t: "drop start_index content = CHR ''{'' # t" by blast
        show ?thesis
        proof (cases "json_loads (drop start_index content)")
          case (Inl e)
          with Inr False found p Some show ?thesis
            by (simp add: analyze_details_with_bedrock_def analyze_handler_is_dict)
        next
          case loaded: (Inr v)
          with t json_loads_brace_returns_object [of t v] obtain d where "v = JObj d"
            by auto
          with Inr False found p Some loaded show ?thesis
            by (simp add: analyze_details_with_bedrock_def)
        qed
      qed
    qed
  qed
qed

section \<open>The replies of the model service\<close>

text \<open>
  Claim C3, as the code has it. On an empty body \<^verbatim>\<open>analyze_details_with_bedrock\<close>
  returns \<^verbatim>\<open>{"error": "Empty response from the model"}\<close> and
  \<^verbatim>\<open>generate_proposal\<close> returns
  \<^verbatim>\<open>{"error": "Empty or invalid response from the model"}\<close>. Neither operation
  reads or writes the session state, and at each of the four places of the script
  that call one of them the session state after the step is the one the step had
  when it made the call: the analysis of a draft renders the error and leaves the
  session state as it was; so does \<^verbatim>\<open>Generate Proposal\<close>, which makes the call
  when the button is pressed and the text area is not blank; the block of
  \<^verbatim>\<open>Confirm Details\<close>, which has stored the edited details and the combined
  response before it calls the two operations, renders the two errors and stores
  nothing more.
\<close>

theorem empty_body_is_an_error:
  "analyze_details_with_bedrock (Inr []) =
     JObj [(''error'', JStr ''Empty response from the model'')]
   \<and> generate_proposal (Inr []) =
       JObj [(''error'', JStr ''Empty or invalid response from the model'')]
   \<and> analysis_step (ui\<lparr>analysis_reply := Inr []\<rparr>) r =
       (None,
        \<lparr>session = session r,
         screen = screen r @
           [Error ''Error in analysis: '' (JStr ''Empty response from the model'')]\<rparr>)
   \<and> generate_step (ui\<lparr>proposal_reply := Inr []\<rparr>) r =
       (None,
        \<lparr>session = session r,
         screen =
           (if button ui ''Generate Proposal'' \<and> py_strip (text_area ui) \<noteq> []
            then screen r @
                   [Error ''Error: '' (JStr ''Empty or invalid response from the model'')]
            else screen r)\<rparr>)
   \<and> confirm_details (ui\<lparr>confirm_analysis_reply := Inr [], confirm_proposal_reply := Inr []\<rparr>)
         edited r =
       (case combine_responses (response (session r)) edited of
          Inl e \<Rightarrow>
            (Some e,
             \<lparr>session = (session r)\<lparr>collected_details := edited\<rparr>,
              screen = screen r @ [Success ''Details confirmed!'']\<rparr>)
        | Inr combined \<Rightarrow>
            (None,
             \<lparr>session = (session r)\<lparr>collected_details := edited, final_response := combined\<rparr>,
              screen = screen r @
                [Success ''Details confirmed!'',
                 Subheader ''Generated Proposal Response:'',
                 Json (JObj [(''error'', JStr ''Empty or invalid response from the model'')]),
                 Json (JObj [(''error'', JStr ''Empty response from the model'')])]\<rparr>))"
proof (intro conjI)
  show "analyze_details_with_bedrock (Inr []) =
      JObj [(''error'', JStr ''Empty response from the model'')]"
    by (simp add: analyze_details_with_bedrock_def error_response_def)
next
  show "generate_proposal (Inr []) =
      JObj [(''error'', JStr ''Empty or invalid response from the model'')]"
    by (simp add: generate_proposal_def error_response_def)
next
  show "analysis_step (ui\<lparr>analysis_reply := Inr []\<rparr>) r =
       (None,
        \<lparr>session = session r,
         screen = screen r @
           [Error ''Error in analysis: '' (JStr ''Empty response from the model'')]\<rparr>)"
    by (simp add: analyze_details_with_bedrock_def error_response_def analysis_step_def
        dict_get_def render_def)
next
  show "generate_step (ui\<lparr>proposal_reply := Inr []\<rparr>) r =
       (None,
        \<lparr>session = session r,
         screen =
           (if button ui ''Generate Proposal'' \<and> py_strip (text_area ui) \<noteq> []
            then screen r @
                   [Error ''Error: '' (JStr ''Empty or invalid response from the model'')]
            else screen r)\<rparr>)"
    by (simp add: generate_proposal_def error_response_def generate_step_def dict_get_def
        dict_has_def render_def)
next
  show "confirm_details (ui\<lparr>confirm_analysis_reply := Inr [], confirm_proposal_reply := Inr []\<rparr>)
         edited r =
       (case combine_responses (response (session r)) edited of
          Inl e \<Rightarrow>
            (Some e,
             \<lparr>session = (session r)\<lparr>collected_details := edited\<rparr>,
              screen = screen r @ [Success ''Details confirmed!'']\<rparr>)
        | Inr combined \<Rightarrow>
            (None,
             \<lparr>session = (session r)\<lparr>collected_details := edited, final_response := combined\<rparr>,
              screen = screen r @
                [Success ''Details confirmed!'',
                 Subheader ''Generated Proposal Response:'',
                 Json (JObj [(''error'', JStr ''Empty or invalid response from the model'')]),
                 Json (JObj [(''error'', JStr ''Empty response from the model'')])]\<rparr>))"
    by (cases "combine_responses (response (session r)) edited")
       (simp_all add: confirm_details_def Let_def render_def on_session_def
          analyze_details_with_bedrock_def generate_proposal_def error_response_def)
qed

text \<open>
  The claim as the spec states it gives both operations the message of the first:
  \<^verbatim>\<open>generate_proposal\<close> returns another dictionary.
\<close>

theorem empty_body_counterexample:
  "generate_proposal (Inr []) \<noteq> JObj [(''error'', JStr ''Empty response from the model'')]"
  by (simp add: generate_proposal_def error_response_def)

text \<open>
  Claim C2, at the reply of the spec's scenario. \<^verbatim>\<open>analyze_details_with_bedrock\<close>
  decodes the text from its first brace on; \<^verbatim>\<open>generate_proposal\<close> decodes the
  whole text, which starts with prose, and returns the decoder's error.
\<close>

theorem prose_before_the_brace:
  "analyze_details_with_bedrock
     (Inr (bedrock_body ''Sure! {\"Proposal Description\":\"...\"}'')) =
     JObj [(''Proposal Description'', JStr ''...'')]
   \<and> generate_proposal
       (Inr (bedrock_body ''Sure! {\"Proposal Description\":\"...\"}'')) =
       JObj [(''error'',
              JStr ''Exception occurred: Expecting value: line 1 column 1 (char 0)'')]"
  by code_simp

text \<open>
  Claim C4, at a reply whose text is a JSON array. Neither operation raises: what goes
  wrong inside them comes back as an error dictionary. \<^verbatim>\<open>analyze_details_with_bedrock\<close>
  returns a dictionary whatever the service does; \<^verbatim>\<open>generate_proposal\<close> returns the
  list that the reply text denotes, which is no dictionary.
\<close>

theorem generate_proposal_returns_a_list:
  "(\<exists>d. analyze_details_with_bedrock invoked = JObj d)
   \<and> generate_proposal (Inr (bedrock_body ''[\"Tax Filing\"]'')) = JArr [JStr ''Tax Filing'']"
proof
  show "\<exists>d. analyze_details_with_bedrock invoked = JObj d"
    by (rule analyze_details_returns_dict)
  show "generate_proposal (Inr (bedrock_body ''[\"Tax Filing\"]'')) = JArr [JStr ''Tax Filing'']"
    by code_simp
qed

section \<open>The collection of missing details\<close>

lemma unanswered_names:
  "unanswered (map JStr names) d = Inr (map JStr (filter (\<lambda>n. \<not> dict_has n d) names))"
  by (induction names) (simp_all add: and_then_def)

lemma find_first_of_filter:
  "List.find P xs = Some k \<Longrightarrow> \<exists>rest. filter P xs = k # rest"
  by (induction xs) (auto split: if_splits)

lemma find_satisfies: "List.find P xs = Some k \<Longrightarrow> P k"
  by (induction xs) (auto split: if_splits)

lemma collect_reviews_when_all_answered:
  assumes "\<forall>n \<in> set names. dict_has n (collected_details (session r))"
    and "collected_details (session r) \<noteq> []"
  shows "collect_missing_details_interactive ui (JArr (map JStr names)) r = review ui r"
proof -
  from assms(1) have "filter (\<lambda>n. \<not> dict_has n (collected_details (session r))) names = []"
    by (simp add: filter_empty_conv)
  with assms(2) show ?thesis
    by (simp add: collect_missing_details_interactive_def and_then_def unanswered_names)
qed

lemma collected_details_log_chat [simp]:
  "collected_details (log_chat sender m s) = collected_details s"
  by (simp add: log_chat_def Let_def)

lemma dict_get_Cons:
  "dict_get k ((k', v') # d) = (if k = k' then Some v' else dict_get k d)"
  by (simp add: dict_get_def)

lemma dict_get_dict_merge:
  assumes "distinct (map fst b)"
  shows "dict_get k (dict_merge a b) =
           (case dict_get k b of Some v \<Rightarrow> Some v | None \<Rightarrow> dict_get k a)"
  using assms
proof (induction b arbitrary: a)
  case Nil
  show ?case by (simp add: dict_merge_def dict_get_def)
next
  case (Cons kv b)
  obtain k' v' where kv: "kv = (k', v')" by (cases kv)
  have step: "dict_merge a ((k', v') # b) = dict_merge (dict_set k' v' a) b"
    by (simp add: dict_merge_def)
  from Cons.prems kv have fresh: "dict_get k' b = None"
    by (simp add: dict_get_def map_of_eq_None_iff)
  from Cons.prems have "distinct (map fst b)" by simp
  from Cons.IH [OF this, of "dict_set k' v' a"] fresh show ?case
    unfolding kv step by (auto simp: dict_get_dict_set dict_get_Cons split: option.splits)
qed

lemma keys_dict_merge:
  "set (map fst (dict_merge a b)) = set (map fst a) \<union> set (map fst b)"
proof (induction b arbitrary: a)
  case Nil
  show ?case by (simp add: dict_merge_def)
next
  case (Cons kv b)
  obtain k' v' where kv: "kv = (k', v')" by (cases kv)
  have step: "dict_merge a (kv # b) = dict_merge (dict_set k' v' a) b"
    by (simp add: dict_merge_def kv)
  show ?case
    unfolding step Cons.IH by (auto simp: keys_dict_set kv)
qed
lemma screen_confirm_details:
  "\<exists>more. screen (snd (confirm_details ui edited r)) = screen r @ more"
  by (cases "combine_responses (response (session r)) edited")
     (simp_all add: confirm_details_def Let_def render_def on_session_def)

lemma screen_review:
  assumes "review_details (session r) = Inr combined"
  shows "\<exists>more. screen (snd (review ui r)) =
           screen r @ Subheader ''Review Your Details'' # edit_inputs combined @ more"
proof (cases "button ui ''Confirm Details''")
  case False
  with assms show ?thesis
    by (simp add: review_def Let_def render_def)
next
  case True
  let ?r2 = "r\<lparr>screen := screen r @ Subheader ''Review Your Details'' # edit_inputs combined\<rparr>"
  from screen_confirm_details [of ui "edited_details ui combined" ?r2]
  obtain more where "screen (snd (confirm_details ui (edited_details ui combined) ?r2)) =
     screen ?r2 @ more" by blast
  with True assms show ?thesis
    by (simp add: review_def Let_def render_def)
qed

lemma not_in_dict_hashable: "hashable key \<Longrightarrow> \<exists>b. not_in_dict key d = Inr b"
  by (cases key) auto

lemma unanswered_hashable:
  "\<forall>key \<in> set keys. hashable key \<Longrightarrow>
     unanswered keys d = Inr (filter (\<lambda>key. not_in_dict key d = Inr True) keys)"
proof (induction keys)
  case Nil
  show ?case by simp
next
  case (Cons key keys)
  from Cons.prems obtain b where b: "not_in_dict key d = Inr b"
    using not_in_dict_hashable [of key d] by auto
  from Cons show ?case by (simp add: b and_then_def)
qed

text \<open>
  Claim C6, as the code has it. When every item of the missing details can be hashed,
  so that each test \<^verbatim>\<open>key not in collected_details\<close> succeeds, and the first item
  that is not yet a key of the collected details is the name of a field of the
  registry, the invocation asks the registry's question for that field: it logs the
  question as the bot's (once only) and renders the text input labelled with it, and
  it raises nothing but the rerun of a submitted answer. The field asked is not a key
  of the collected details.
\<close>

theorem first_unanswered_field_is_asked:
  assumes "py_iter missing = Inr keys"
    and "\<forall>key \<in> set keys. hashable key"
    and "List.find (\<lambda>key. not_in_dict key (collected_details (session r)) = Inr True) keys
           = Some (JStr k)"
    and "map_of REQUIRED_LEAD_DETAILS k = Some question"
  shows "collect_missing_details_interactive ui missing r = ask_question ui k question r
       \<and> \<not> dict_has k (collected_details (session r))
       \<and> (fst (collect_missing_details_interactive ui missing r) = None
            \<or> fst (collect_missing_details_interactive ui missing r) = Some RerunException)
       \<and> screen (snd (collect_missing_details_interactive ui missing r)) =
           screen r @ [TextInput question (JStr []) (''text-'' @ k)]
       \<and> question \<in> asked_questions
           (session (snd (collect_missing_details_interactive ui missing r)))
       \<and> bot_messages (session (snd (collect_missing_details_interactive ui missing r))) =
           (if question \<in> asked_questions (session r) then bot_messages (session r)
            else bot_messages (session r) @ [question])"
proof -
  from find_first_of_filter [OF assms(3)] obtain rest
    where "filter (\<lambda>key. not_in_dict key (collected_details (session r)) = Inr True) keys
             = JStr k # rest"
    by blast
  with assms(1,4) unanswered_hashable [OF assms(2), of "collected_details (session r)"]
  have ask: "collect_missing_details_interactive ui missing r = ask_question ui k question r"
    by (simp add: collect_missing_details_interactive_def and_then_def)
  have fresh: "\<not> dict_has k (collected_details (session r))"
    using find_satisfies [OF assms(3)] by simp
  have ended: "fst (ask_question ui k question r) = None
      \<or> fst (ask_question ui k question r) = Some RerunException"
    by (simp add: ask_question_def Let_def)
  have shown: "screen (snd (ask_question ui k question r)) =
      screen r @ [TextInput question (JStr []) (''text-'' @ k)]"
    by (simp add: ask_question_def Let_def render_def on_session_def)
  have asked: "question \<in> asked_questions (session (snd (ask_question ui k question r)))"
    by (simp add: ask_question_def Let_def render_def on_session_def asked_questions_log_chat)
  have said: "bot_messages (session (snd (ask_question ui k question r))) =
      (if question \<in> asked_questions (session r) then bot_messages (session r)
       else bot_messages (session r) @ [question])"
    by (simp add: ask_question_def Let_def render_def on_session_def bot_messages_log_chat
        asked_questions_log_chat)
       (simp add: bot_messages_def log_chat_def Let_def)
  from ask fresh ended shown asked said show ?thesis by simp
qed

text \<open>
  The theorem where the industry is collected and the revenue is not: the revenue's
  question is asked.
\<close>

theorem first_unanswered_field_is_asked_witness:
  "collect_missing_details_interactive idle (JArr [JStr ''Industry'', JStr ''Annual Revenue''])
     \<lparr>session = initial_state\<lparr>collected_details := [(''Industry'', JStr ''Consulting'')]\<rparr>,
      screen = []\<rparr> =
   (None,
    \<lparr>session = initial_state
       \<lparr>chat_history := [(''Bot'', ''What is the approximate annual revenue of your business?'')],
        asked_questions := {''What is the approximate annual revenue of your business?''},
        collected_details := [(''Industry'', JStr ''Consulting'')]\<rparr>,
     screen = [TextInput ''What is the approximate annual revenue of your business?''
                 (JStr []) ''text-Annual Revenue'']\<rparr>)"
  using first_unanswered_field_is_asked
          [of "JArr [JStr ''Industry'', JStr ''Annual Revenue'']"
              "[JStr ''Industry'', JStr ''Annual Revenue'']"
              "\<lparr>session = initial_state\<lparr>collected_details := [(''Industry'', JStr ''Consulting'')]\<rparr>,
                screen = []\<rparr>"
              "''Annual Revenue''"
              "''What is the approximate annual revenue of your business?''" idle,
           THEN conjunct1]
  by (simp add: dict_has_def REQUIRED_LEAD_DETAILS_def)
     (simp add: ask_question_def idle_def Let_def render_def on_session_def log_chat_def
        initial_state_def)

text \<open>
  The claim as the spec states it, for every invocation with an unanswered field,
  fails in two ways. For a first unanswered name that the registry does not have, the
  lookup raises a \<^verbatim>\<open>KeyError\<close>. For a list with an item that cannot be hashed, here
  a dictionary after the industry, the test \<^verbatim>\<open>key not in collected_details\<close> raises a
  \<^verbatim>\<open>TypeError\<close> before any field is chosen, although the first unanswered item is a
  field of the registry. In both no question is logged or rendered.
\<close>

theorem first_unanswered_field_counterexample:
  "collect_missing_details_interactive idle (JArr [JStr ''Revenue''])
     \<lparr>session = initial_state, screen = []\<rparr> =
   (Some (KeyError (squote ''Revenue'')), \<lparr>session = initial_state, screen = []\<rparr>)
   \<and> collect_missing_details_interactive idle
       (JArr [JStr ''Industry'', JObj [(''name'', JStr ''Entity Type'')]])
       \<lparr>session = initial_state, screen = []\<rparr> =
     (Some (TypeError (''unhashable type: '' @ squote ''dict'')),
      \<lparr>session = initial_state, screen = []\<rparr>)"
  by (simp add: collect_missing_details_interactive_def and_then_def dict_has_def
      initial_state_def REQUIRED_LEAD_DETAILS_def py_repr_str_def repr_char_def
      is_printable_def squote_def Let_def)

text \<open>
  Claim C7, at the industry's question, already logged, with \<^verbatim>\<open>Submit\<close> pressed. The
  condition \<^verbatim>\<open>if value:  # Ensure a valid response\<close> refuses the empty string alone.
  On an empty input the invocation ends without an exception and leaves the session
  state as it was. On an input of one space the answer is stored under the field and
  logged as the user's, the script reruns, and the field is no longer pending.
\<close>

theorem blank_answer_is_stored:
  "collect_missing_details_interactive
     (idle\<lparr>button := (\<lambda>key. key = ''submit-Industry'')\<rparr>)
     (JArr [JStr ''Industry''])
     \<lparr>session = log_chat ''Bot'' ''Which industry does your business operate in?'' initial_state,
      screen = []\<rparr> =
   (None,
    \<lparr>session = log_chat ''Bot'' ''Which industry does your business operate in?'' initial_state,
     screen = [TextInput ''Which industry does your business operate in?'' (JStr [])
                 ''text-Industry'']\<rparr>)
   \<and> collect_missing_details_interactive
     (idle\<lparr>button := (\<lambda>key. key = ''submit-Industry''),
           text_input := (\<lambda>key. if key = ''text-Industry'' then '' '' else [])\<rparr>)
     (JArr [JStr ''Industry''])
     \<lparr>session = log_chat ''Bot'' ''Which industry does your business operate in?'' initial_state,
      screen = []\<rparr> =
   (Some RerunException,
    \<lparr>session = initial_state
       \<lparr>chat_history := [(''Bot'', ''Which industry does your business operate in?''),
                         (''User'', '' '')],
        asked_questions := {''Which industry does your business operate in?''},
        collected_details := [(''Industry'', JStr '' '')]\<rparr>,
     screen = [TextInput ''Which industry does your business operate in?'' (JStr [])
                 ''text-Industry'']\<rparr>)
   \<and> py_strip '' '' = []"
  by (simp add: collect_missing_details_interactive_def and_then_def dict_has_def
      initial_state_def REQUIRED_LEAD_DETAILS_def ask_question_def idle_def Let_def
      render_def on_session_def log_chat_def py_strip_def is_space_def)

text \<open>
  Claim C8, as the code has it. When every missing name is a key of the collected
  details, the collected details are not empty and the draft's
  \<^verbatim>\<open>get("provided_details", {})\<close> is a dictionary, the invocation enters the review:
  it renders the heading and then one text input for each entry of the draft's
  details merged with the collected details. The merged dictionary has the keys of
  both, and a key of the collected details has the collected value.
\<close>

theorem review_shows_union_of_details:
  assumes "\<forall>n \<in> set names. dict_has n (collected_details (session r))"
    and "collected_details (session r) \<noteq> []"
    and "distinct (map fst (collected_details (session r)))"
    and "py_get (response (session r)) ''provided_details'' (JObj []) = Inr (JObj provided)"
  shows "collect_missing_details_interactive ui (JArr (map JStr names)) r = review ui r
       \<and> review_details (session r) =
           Inr (dict_merge provided (collected_details (session r)))
       \<and> (\<exists>more. screen (snd (review ui r)) =
             screen r @ Subheader ''Review Your Details''
               # edit_inputs (dict_merge provided (collected_details (session r))) @ more)
       \<and> (\<forall>key. dict_get key (dict_merge provided (collected_details (session r))) =
             (case dict_get key (collected_details (session r)) of
                Some v \<Rightarrow> Some v
              | None \<Rightarrow> dict_get key provided))
       \<and> set (map fst (dict_merge provided (collected_details (session r)))) =
           set (map fst provided) \<union> set (map fst (collected_details (session r)))"
proof -
  have details: "review_details (session r) =
      Inr (dict_merge provided (collected_details (session r)))"
    using assms(4) by (simp add: review_details_def and_then_def)
  from collect_reviews_when_all_answered [OF assms(1,2)] details
    screen_review [OF details, of ui] dict_get_dict_merge [OF assms(3)]
    keys_dict_merge [of provided "collected_details (session r)"]
  show ?thesis by simp
qed

text \<open>
  The theorem at a draft that gives an industry and an entity type, with an industry
  and a revenue collected: the review shows the collected industry.
\<close>

theorem review_shows_union_of_details_witness:
  "collect_missing_details_interactive idle (JArr [JStr ''Industry'', JStr ''Annual Revenue''])
     \<lparr>session = initial_state
        \<lparr>collected_details := [(''Industry'', JStr ''Consulting''),
                                (''Annual Revenue'', JStr ''500k'')],
         response := JObj [(''Proposal Description'', JStr ''Tax filing''),
                           (''provided_details'',
                            JObj [(''Industry'', JStr ''Retail''),
                                  (''Entity Type'', JStr ''LLC'')])]\<rparr>,
      screen = []\<rparr> =
   (None,
    \<lparr>session = initial_state
        \<lparr>collected_details := [(''Industry'', JStr ''Consulting''),
                                (''Annual Revenue'', JStr ''500k'')],
         response := JObj [(''Proposal Description'', JStr ''Tax filing''),
                           (''provided_details'',
                            JObj [(''Industry'', JStr ''Retail''),
                                  (''Entity Type'', JStr ''LLC'')])]\<rparr>,
     screen = [Subheader ''Review Your Details'',
               TextInput ''Industry:'' (JStr ''Consulting'') ''edit-Industry'',
               TextInput ''Entity Type:'' (JStr ''LLC'') ''edit-Entity Type'',
               TextInput ''Annual Revenue:'' (JStr ''500k'') ''edit-Annual Revenue'']\<rparr>)"
  using review_shows_union_of_details
          [of "[''Industry'', ''Annual Revenue'']"
              "\<lparr>session = initial_state
                  \<lparr>collected_details := [(''Industry'', JStr ''Consulting''),
                                          (''Annual Revenue'', JStr ''500k'')],
                   response := JObj [(''Proposal Description'', JStr ''Tax filing''),
                                     (''provided_details'',
                                      JObj [(''Industry'', JStr ''Retail''),
                                            (''Entity Type'', JStr ''LLC'')])]\<rparr>,
                screen = []\<rparr>"
              "[(''Industry'', JStr ''Retail''), (''Entity Type'', JStr ''LLC'')]" idle,
           THEN conjunct1]
  by (simp add: dict_has_def dict_get_def)
     (simp add: review_def review_details_def and_then_def dict_get_def dict_merge_def
        edit_inputs_def idle_def Let_def render_def)

text \<open>
  The claim as the spec states it, for every state with all fields answered, fails
  where the draft's entry is not a dictionary: the heading is rendered and unpacking
  the entry raises a \<^verbatim>\<open>TypeError\<close>, so no details are shown.
\<close>

theorem review_counterexample:
  "collect_missing_details_interactive idle (JArr [JStr ''Industry''])
     \<lparr>session = initial_state
        \<lparr>collected_details := [(''Industry'', JStr ''Consulting'')],
         response := JObj [(''Proposal Description'', JStr ''Tax filing''),
                           (''provided_details'', JStr ''Not Mentioned'')]\<rparr>,
      screen = []\<rparr> =
   (Some (TypeError (squote ''str'' @ '' object is not a mapping'')),
    \<lparr>session = initial_state
        \<lparr>collected_details := [(''Industry'', JStr ''Consulting'')],
         response := JObj [(''Proposal Description'', JStr ''Tax filing''),
                           (''provided_details'', JStr ''Not Mentioned'')]\<rparr>,
     screen = [Subheader ''Review Your Details'']\<rparr>)"
  by (simp add: collect_missing_details_interactive_def and_then_def dict_has_def
      review_def review_details_def dict_get_def Let_def render_def)

end
